theory Spec2Isabelle
  imports Complex_Main "HOL-Library.Word"
begin

section \<open>Error handler (error-handler.ts)\<close>

text \<open>
  Times, configured delays and counts are integers here; a value that may be \<open>undefined\<close>
  is an \<open>option\<close>. A thrown value is one of three shapes, the ones \<open>parseError\<close> tells
  apart with \<open>instanceof\<close>.
\<close>

subsection \<open>Numbers read from a header\<close>

text \<open>
  The number of seconds that \<open>parseError\<close> reads from a header is a double: an integer of
  any size rounded to the nearest double, ties to the even significand, or an infinity
  when the rounding leaves the range of the doubles. \<open>NaN\<close> is not among these values: where
  the code has \<open>NaN\<close> or \<open>undefined\<close> the model has \<open>None\<close>, and the code treats the two
  alike. \<open>round_to_double\<close> rounds a natural number, with \<open>None\<close> for the overflow.
\<close>

datatype jsnum = Num int | PosInfinity | NegInfinity

fun bit_length :: "nat \<Rightarrow> nat" where
  "bit_length n = (if n = 0 then 0 else Suc (bit_length (n div 2)))"

declare bit_length.simps [simp del]

definition round_to_double :: "nat \<Rightarrow> nat option" where
  "round_to_double n =
     (let len = bit_length n in
      if len \<le> 53 then Some n
      else (let sh = len - 53;
                q = n div 2 ^ sh;
                r = n mod 2 ^ sh;
                half = 2 ^ (sh - 1);
                q1 = (if half < r \<or> (r = half \<and> odd q) then q + 1 else q);
                v = q1 * 2 ^ sh
            in if 2 ^ 1024 \<le> v then None else Some v))"

definition to_double :: "int \<Rightarrow> jsnum" where
  "to_double i =
     (case round_to_double (nat \<bar>i\<bar>) of
        None \<Rightarrow> (if i < 0 then NegInfinity else PosInfinity)
      | Some v \<Rightarrow> Num (if i < 0 then - int v else int v))"

text \<open>The product \<open>x * 1000\<close> of doubles: the exact product, rounded.\<close>

definition times_1000 :: "jsnum \<Rightarrow> jsnum" where
  "times_1000 x =
     (case x of
        Num n \<Rightarrow> to_double (n * 1000)
      | PosInfinity \<Rightarrow> PosInfinity
      | NegInfinity \<Rightarrow> NegInfinity)"

datatype ErrorCategory =
  AUTHENTICATION | AUTHORIZATION | RATE_LIMIT | NOT_FOUND | VALIDATION | SERVER | NETWORK | UNKNOWN

text \<open>
  The part of an Axios response the code reads: the status, the \<open>retry-after\<close> header and
  the three message fields of the body (\<open>None\<close> when the body or the field is missing).
\<close>

record response =
  status :: int
  retry_after_header :: "string option"
  data_error_description :: "string option"
  data_message :: "string option"
  data_error :: "string option"

datatype thrown =
    AxiosError string "response option"
  | StdError string
  | NonError string

record MCPError =
  category :: ErrorCategory
  message :: string
  userMessage :: string
  suggestion :: "string option"
  retryable :: bool
  retryAfter :: "jsnum option"
  originalError :: "thrown option"

fun categorizeHttpError :: "int \<Rightarrow> ErrorCategory" where
  "categorizeHttpError st =
     (if st = 401 then AUTHENTICATION
      else if st = 403 then AUTHORIZATION
      else if st = 404 then NOT_FOUND
      else if st = 422 \<or> st = 400 then VALIDATION
      else if st = 429 then RATE_LIMIT
      else if st = 500 \<or> st = 502 \<or> st = 503 \<or> st = 504 then SERVER
      else UNKNOWN)"

text \<open>\<open>a || b\<close> on strings that may be undefined: the empty string is falsy too.\<close>

fun truthy_str :: "string option \<Rightarrow> bool" where
  "truthy_str None = False"
| "truthy_str (Some s) = (s \<noteq> [])"

definition or_str :: "string option \<Rightarrow> string option \<Rightarrow> string option" where
  "or_str a b = (if truthy_str a then a else b)"

definition or_default :: "string option \<Rightarrow> string \<Rightarrow> string" where
  "or_default a d = (case a of Some s \<Rightarrow> (if s \<noteq> [] then s else d) | None \<Rightarrow> d)"

definition apostrophe :: string where
  "apostrophe = [CHR 0x27]"

fun getUserMessage :: "ErrorCategory \<Rightarrow> string option \<Rightarrow> string" where
  "getUserMessage AUTHENTICATION details =
     ''Your session has expired. Please re-authenticate with Reaudit.''"
| "getUserMessage AUTHORIZATION details =
     or_default details (''You don'' @ apostrophe @
       ''t have permission to perform this action. Check your subscription tier.'')"
| "getUserMessage RATE_LIMIT details =
     ''You'' @ apostrophe @
       ''ve reached your usage limit. Please wait before trying again or upgrade your plan.''"
| "getUserMessage NOT_FOUND details =
     or_default details
       ''The requested resource was not found. It may have been deleted or you may not have access.''"
| "getUserMessage VALIDATION details =
     or_default details ''Invalid request. Please check your input and try again.''"
| "getUserMessage SERVER details =
     ''Reaudit is experiencing issues. Please try again in a few minutes.''"
| "getUserMessage NETWORK details =
     ''Unable to connect to Reaudit. Please check your internet connection.''"
| "getUserMessage UNKNOWN details =
     ''An unexpected error occurred. Please try again.''"

fun getSuggestion :: "ErrorCategory \<Rightarrow> string option" where
  "getSuggestion AUTHENTICATION =
     Some ''Delete ~/.reaudit/credentials.json and restart to re-authenticate.''"
| "getSuggestion AUTHORIZATION =
     Some ''Visit https://reaudit.io/settings to check your subscription.''"
| "getSuggestion RATE_LIMIT = Some ''Use get_usage_summary to check your current limits.''"
| "getSuggestion NOT_FOUND = Some ''Use list_projects or list_audits to find valid IDs.''"
| "getSuggestion SERVER = Some ''Check https://status.reaudit.io for service status.''"
| "getSuggestion NETWORK = Some ''Verify you can access https://reaudit.io in your browser.''"
| "getSuggestion _ = None"

definition isRetryable :: "ErrorCategory \<Rightarrow> bool" where
  "isRetryable c = (c \<in> set [RATE_LIMIT, SERVER, NETWORK])"

subsection \<open>\<open>parseInt\<close> on a header value\<close>

text \<open>
  \<open>parseInt\<close> skips leading white space, reads an optional sign, then a \<open>0x\<close> prefix with
  hexadecimal digits or else decimal digits, and stops at the first other character; with
  no digit at all the result is \<open>NaN\<close>, here \<open>None\<close>. The value of the digits is exact and
  the result is that value as a double. The runtime decodes the bytes of a header value
  as Latin-1, so a character of a header is a code unit below 256; the white space of the
  language in that range is the ASCII white space and the no-break space \<open>U+00A0\<close>.
\<close>

definition is_ws :: "char \<Rightarrow> bool" where
  "is_ws c = (c \<in> set [CHR '' '', CHR 0x09, CHR 0x0A, CHR 0x0B, CHR 0x0C, CHR 0x0D, CHR 0xA0])"

definition hexval :: "char \<Rightarrow> nat option" where
  "hexval c =
     (let n = (of_char c :: nat) in
      if 48 \<le> n \<and> n \<le> 57 then Some (n - 48)
      else if 97 \<le> n \<and> n \<le> 102 then Some (n - 87)
      else if 65 \<le> n \<and> n \<le> 70 then Some (n - 55)
      else None)"

definition digit_in :: "nat \<Rightarrow> char \<Rightarrow> bool" where
  "digit_in radix c = (case hexval c of Some v \<Rightarrow> v < radix | None \<Rightarrow> False)"

fun digits_value :: "nat \<Rightarrow> nat \<Rightarrow> string \<Rightarrow> nat" where
  "digits_value radix acc [] = acc"
| "digits_value radix acc (c # cs) =
     digits_value radix (acc * radix + (case hexval c of Some v \<Rightarrow> v | None \<Rightarrow> 0)) cs"

definition parseInt :: "string \<Rightarrow> jsnum option" where
  "parseInt s =
     (let s1 = dropWhile is_ws s;
          neg = (case s1 of c # _ \<Rightarrow> c = CHR ''-'' | [] \<Rightarrow> False);
          s2 = (case s1 of c # r \<Rightarrow> (if c = CHR ''-'' \<or> c = CHR ''+'' then r else s1) | [] \<Rightarrow> s1);
          hex = (take 2 s2 = ''0x'' \<or> take 2 s2 = ''0X'');
          radix = (if hex then 16 else 10);
          s3 = (if hex then drop 2 s2 else s2);
          ds = takeWhile (digit_in radix) s3
      in if ds = [] then None
         else Some (to_double ((if neg then - 1 else 1) * int (digits_value radix 0 ds))))"

subsection \<open>\<open>parseError\<close>\<close>

text \<open>
  \<open>Date.now()\<close> and the parse of a date string by \<open>new Date(...)\<close> belong to the runtime:
  \<open>now\<close> is the current time in milliseconds and \<open>Date_parse\<close> gives the time value of a
  date string, \<open>None\<close> for an invalid date (\<open>NaN\<close>). The local variable \<open>retryAfter\<close> of
  \<open>parseError\<close> is \<open>undefined\<close>, \<open>NaN\<close> or a number; only its truthiness is used, so
  \<open>header_retryAfter\<close> gives \<open>Some n\<close> for a number and \<open>None\<close> for the other two.
  Time values are within the range of \<open>Date\<close>, below \<open>2^53\<close> in size, where the
  difference, the division by 1000 and \<open>Math.ceil\<close> give the integer written here.
\<close>

definition ceil_div_1000 :: "int \<Rightarrow> int" where
  "ceil_div_1000 x = - ((- x) div 1000)"

definition header_retryAfter ::
  "(string \<Rightarrow> int option) \<Rightarrow> int \<Rightarrow> ErrorCategory \<Rightarrow> response \<Rightarrow> jsnum option" where
  "header_retryAfter Date_parse now cat r =
     (if cat = RATE_LIMIT then
        (case retry_after_header r of
           None \<Rightarrow> None
         | Some retryHeader \<Rightarrow>
             if retryHeader = [] then None
             else (case parseInt retryHeader of
                     Some parsed \<Rightarrow> Some parsed
                   | None \<Rightarrow>
                       (case Date_parse retryHeader of
                          None \<Rightarrow> None
                        | Some t \<Rightarrow> Some (Num (ceil_div_1000 (t - now))))))
      else None)"

definition truthy_num :: "jsnum option \<Rightarrow> bool" where
  "truthy_num x =
     (case x of
        Some (Num n) \<Rightarrow> n \<noteq> 0
      | Some PosInfinity \<Rightarrow> True
      | Some NegInfinity \<Rightarrow> True
      | None \<Rightarrow> False)"

definition parseError :: "(string \<Rightarrow> int option) \<Rightarrow> int \<Rightarrow> thrown \<Rightarrow> MCPError" where
  "parseError Date_parse now error =
     (case error of
        AxiosError msg None \<Rightarrow>
          \<lparr> category = NETWORK, message = msg,
            userMessage = getUserMessage NETWORK None,
            suggestion = getSuggestion NETWORK,
            retryable = True, retryAfter = Some (Num 5),
            originalError = Some error \<rparr>
      | AxiosError msg (Some r) \<Rightarrow>
          (let cat = categorizeHttpError (if status r = 0 then 500 else status r);
               apiMessage = or_str (or_str (data_error_description r) (data_message r)) (data_error r);
               retryAfter0 = header_retryAfter Date_parse now cat r
           in \<lparr> category = cat,
                message = or_default apiMessage msg,
                userMessage = getUserMessage cat apiMessage,
                suggestion = getSuggestion cat,
                retryable = isRetryable cat,
                retryAfter = (if truthy_num retryAfter0 then retryAfter0
                              else if isRetryable cat then Some (Num 30) else None),
                originalError = Some error \<rparr>)
      | StdError msg \<Rightarrow>
          \<lparr> category = UNKNOWN, message = msg,
            userMessage = getUserMessage UNKNOWN None,
            suggestion = None,
            retryable = False, retryAfter = None,
            originalError = Some error \<rparr>
      | NonError v \<Rightarrow>
          \<lparr> category = UNKNOWN, message = v,
            userMessage = getUserMessage UNKNOWN None,
            suggestion = None,
            retryable = False, retryAfter = None,
            originalError = None \<rparr>)"

subsection \<open>\<open>formatErrorForUser\<close>\<close>

definition digit_char :: "nat \<Rightarrow> char" where
  "digit_char n = ''0123456789'' ! n"

fun show_nat :: "nat \<Rightarrow> string" where
  "show_nat n =
     (if n < 10 then [digit_char n] else show_nat (n div 10) @ [digit_char (n mod 10)])"

text \<open>
  A number in a template literal is printed with the fewest significant digits that still
  read back as the same double: \<open>shortest_from x d k\<close> looks for the integer with \<open>k\<close>
  significant digits or more, nearest to \<open>x\<close>, that rounds to \<open>x\<close>, where \<open>d\<close> is the number
  of digits of \<open>x\<close>. Up to 21 digits the integer is printed in full, beyond them in
  exponent notation.
\<close>

fun strip_zeros :: "nat \<Rightarrow> nat" where
  "strip_zeros n = (if n \<noteq> 0 \<and> n mod 10 = 0 then strip_zeros (n div 10) else n)"

declare strip_zeros.simps [simp del]

function shortest_from :: "nat \<Rightarrow> nat \<Rightarrow> nat \<Rightarrow> nat" where
  "shortest_from x d k =
     (if d \<le> k then x
      else (let unit = 10 ^ (d - k);
                lo = (x div unit) * unit;
                hi = lo + unit;
                ok_lo = (round_to_double lo = Some x);
                ok_hi = (round_to_double hi = Some x)
            in if ok_lo \<and> ok_hi then
                 (if x - lo < hi - x then lo
                  else if hi - x < x - lo then hi
                  else if even (x div unit) then lo else hi)
               else if ok_lo then lo
               else if ok_hi then hi
               else shortest_from x d (Suc k)))"
  by pat_completeness auto
termination
  by (relation "measure (\<lambda>(x, d, k). d - k)") auto

declare shortest_from.simps [simp del]

definition show_double :: "nat \<Rightarrow> string" where
  "show_double x =
     (let v = shortest_from x (length (show_nat x)) 1;
          n = length (show_nat v)
      in if n \<le> 21 then show_nat v
         else (case show_nat (strip_zeros v) of
                 [] \<Rightarrow> []
               | [c] \<Rightarrow> c # ''e+'' @ show_nat (n - 1)
               | c # rest \<Rightarrow> c # ''.'' @ rest @ ''e+'' @ show_nat (n - 1)))"

definition show_num :: "jsnum \<Rightarrow> string" where
  "show_num x =
     (case x of
        Num i \<Rightarrow> (if i < 0 then CHR ''-'' # show_double (nat (- i)) else show_double (nat i))
      | PosInfinity \<Rightarrow> ''Infinity''
      | NegInfinity \<Rightarrow> ''-Infinity'')"

definition formatErrorForUser :: "MCPError \<Rightarrow> string" where
  "formatErrorForUser e =
     (let m0 = ''**Error:** '' @ userMessage e;
          m1 = (if truthy_str (suggestion e)
                then m0 @ [CHR 0x0A, CHR 0x0A] @ ''**Suggestion:** '' @ the (suggestion e)
                else m0);
          m2 = (if retryable e \<and> truthy_num (retryAfter e)
                then m1 @ [CHR 0x0A, CHR 0x0A] @ ''*This error may be temporary. Try again in ''
                        @ show_num (the (retryAfter e)) @ '' seconds.*''
                else m1)
      in m2)"

subsection \<open>Retry configuration and \<open>withRetry\<close>\<close>

record RetryConfig =
  maxRetries :: int
  baseDelay :: int
  maxDelay :: int
  retryableCategories :: "ErrorCategory list"

record PartialRetryConfig =
  maxRetries_opt :: "int option"
  baseDelay_opt :: "int option"
  maxDelay_opt :: "int option"
  retryableCategories_opt :: "ErrorCategory list option"

definition DEFAULT_RETRY_CONFIG :: RetryConfig where
  "DEFAULT_RETRY_CONFIG =
     \<lparr> maxRetries = 3, baseDelay = 1000, maxDelay = 30000,
       retryableCategories = [RATE_LIMIT, SERVER, NETWORK] \<rparr>"

definition no_overrides :: PartialRetryConfig where
  "no_overrides =
     \<lparr> maxRetries_opt = None, baseDelay_opt = None, maxDelay_opt = None,
       retryableCategories_opt = None \<rparr>"

text \<open>The spread \<open>{ ...DEFAULT_RETRY_CONFIG, ...config }\<close>.\<close>

definition fullConfig :: "PartialRetryConfig \<Rightarrow> RetryConfig" where
  "fullConfig c =
     \<lparr> maxRetries = (case maxRetries_opt c of Some v \<Rightarrow> v | None \<Rightarrow> maxRetries DEFAULT_RETRY_CONFIG),
       baseDelay = (case baseDelay_opt c of Some v \<Rightarrow> v | None \<Rightarrow> baseDelay DEFAULT_RETRY_CONFIG),
       maxDelay = (case maxDelay_opt c of Some v \<Rightarrow> v | None \<Rightarrow> maxDelay DEFAULT_RETRY_CONFIG),
       retryableCategories =
         (case retryableCategories_opt c of Some v \<Rightarrow> v
          | None \<Rightarrow> retryableCategories DEFAULT_RETRY_CONFIG) \<rparr>"

text \<open>
  \<open>calculateRetryDelay\<close>, with the draw of \<open>Math.random()\<close> as the argument \<open>r\<close>
  (a rational in \<open>[0, 1)\<close>); \<open>round\<close> rounds a half upwards as \<open>Math.round\<close> does.
\<close>

definition calculateRetryDelay :: "rat \<Rightarrow> nat \<Rightarrow> RetryConfig \<Rightarrow> int" where
  "calculateRetryDelay r attempt config =
     (let delay = min (baseDelay config * 2 ^ attempt) (maxDelay config);
          jitter = of_int delay * (1 / 5) * (r - 1 / 2)
      in round (of_int delay + jitter))"

text \<open>The wait before the next attempt (the \<open>delay\<close> of \<open>withRetry\<close>).\<close>

definition retry_delay :: "rat \<Rightarrow> nat \<Rightarrow> RetryConfig \<Rightarrow> MCPError \<Rightarrow> jsnum" where
  "retry_delay r attempt config lastError =
     (if truthy_num (retryAfter lastError) then times_1000 (the (retryAfter lastError))
      else Num (calculateRetryDelay r attempt config))"

text \<open>
  The operation \<open>fn\<close> is a closure with effects: a function from the state it runs in to
  its outcome (\<open>Inl\<close> what it threw, \<open>Inr\<close> what it returned) and the state it leaves.
  The runtime supplies the clock, the date parser, the random draws (one per attempt) and
  the timer; \<open>sleep d\<close> is the state after \<open>setTimeout\<close> has waited \<open>d\<close> milliseconds.
  A run records every outcome of \<open>fn\<close> and every wait, in order.
\<close>

record 's runtime =
  Date_now :: "'s \<Rightarrow> int"
  Date_parse :: "string \<Rightarrow> int option"
  Math_random :: "nat \<Rightarrow> rat"
  sleep :: "jsnum \<Rightarrow> 's \<Rightarrow> 's"

record ('s, 'a) retry_run =
  outcome :: "thrown + 'a"
  final :: 's
  attempts :: "(thrown + 'a) list"
  waits :: "jsnum list"

definition gives_up :: "RetryConfig \<Rightarrow> nat \<Rightarrow> MCPError \<Rightarrow> bool" where
  "gives_up config attempt lastError =
     (\<not> retryable lastError
      \<or> category lastError \<notin> set (retryableCategories config)
      \<or> int attempt = maxRetries config)"

function withRetry_from ::
  "'s runtime \<Rightarrow> RetryConfig \<Rightarrow> ('s \<Rightarrow> (thrown + 'a) \<times> 's) \<Rightarrow> nat \<Rightarrow> MCPError option \<Rightarrow> 's
     \<Rightarrow> ('s, 'a) retry_run" where
  "withRetry_from rt config fn attempt lastError s =
     (if int attempt \<le> maxRetries config then
        (case fn s of
           (Inr v, s1) \<Rightarrow> \<lparr> outcome = Inr v, final = s1, attempts = [Inr v], waits = [] \<rparr>
         | (Inl error, s1) \<Rightarrow>
             (let lastError1 = parseError (Date_parse rt) (Date_now rt s1) error in
              if gives_up config attempt lastError1
              then \<lparr> outcome = Inl error, final = s1, attempts = [Inl error], waits = [] \<rparr>
              else
                (let delay = retry_delay (Math_random rt attempt) attempt config lastError1;
                     run = withRetry_from rt config fn (Suc attempt) (Some lastError1)
                             (sleep rt delay s1)
                 in run \<lparr> attempts := Inl error # attempts run, waits := delay # waits run \<rparr>)))
      else
        \<lparr> outcome =
            Inl (case lastError of
                   None \<Rightarrow> StdError ''Retry failed''
                 | Some e \<Rightarrow> (case originalError e of
                                Some orig \<Rightarrow> orig
                              | None \<Rightarrow> StdError ''Retry failed'')),
          final = s, attempts = [], waits = [] \<rparr>)"
  by pat_completeness auto
termination
  by (relation "measure (\<lambda>(rt, config, fn, attempt, lastError, s).
        nat (maxRetries config + 1 - int attempt))") auto

definition withRetry ::
  "'s runtime \<Rightarrow> ('s \<Rightarrow> (thrown + 'a) \<times> 's) \<Rightarrow> PartialRetryConfig \<Rightarrow> 's \<Rightarrow> ('s, 'a) retry_run" where
  "withRetry rt fn config s = withRetry_from rt (fullConfig config) fn 0 None s"

declare withRetry_from.simps [simp del]

subsection \<open>Example inputs for the error handler\<close>

definition plain_response :: "int \<Rightarrow> response" where
  "plain_response st =
     \<lparr> status = st, retry_after_header = None, data_error_description = None,
       data_message = None, data_error = None \<rparr>"

definition still_runtime :: "nat runtime" where
  "still_runtime =
     \<lparr> Date_now = (\<lambda>s. 0), Date_parse = (\<lambda>d. None), Math_random = (\<lambda>k. 1 / 2),
       sleep = (\<lambda>d s. s) \<rparr>"

text \<open>An operation that counts its calls in the state and always fails with the status given.\<close>

definition failing_op :: "int \<Rightarrow> nat \<Rightarrow> (thrown + unit) \<times> nat" where
  "failing_op st n = (Inl (AxiosError ''Request failed'' (Some (plain_response st))), Suc n)"

definition header_response :: "int \<Rightarrow> string \<Rightarrow> response" where
  "header_response st h = (plain_response st) \<lparr> retry_after_header := Some h \<rparr>"

text \<open>An operation that always fails with a 429 that carries the \<open>retry-after\<close> header given.\<close>

definition rate_limited_op :: "string \<Rightarrow> nat \<Rightarrow> (thrown + unit) \<times> nat" where
  "rate_limited_op h n =
     (Inl (AxiosError ''Request failed'' (Some (header_response 429 h))), Suc n)"

section \<open>Token store (token-store.ts)\<close>

text \<open>
  The credentials file is represented by what the runtime makes of it: missing (\<open>None\<close>),
  present but failing to be read, present with text that \<open>JSON.parse\<close> rejects, or present
  with the \<open>TokenFile\<close> that \<open>JSON.parse\<close> returns; \<open>JSON.stringify\<close> followed by
  \<open>JSON.parse\<close> gives back the same \<open>TokenFile\<close>. The hash and the cipher of the
  \<open>crypto\<close> module are parameters: \<open>aes_decrypt\<close> is \<open>None\<close> where \<open>update\<close> or \<open>final\<close>
  throws. Hex encoding, hex decoding (which stops at the first invalid pair, as
  \<open>Buffer.from(s, 'hex')\<close> does) and \<open>split(':')\<close> are written out; \<open>decipher.update\<close>
  throws on a hex string of odd length before it decodes. The initialisation
  vector, drawn by \<open>crypto.randomBytes(16)\<close> in \<open>encrypt\<close>, is an argument.
\<close>

type_synonym byte = "8 word"

record StoredTokens =
  accessToken :: string
  refreshToken :: string
  expiresAt :: int
  scope :: string

record TokenFile =
  version :: int
  tokens :: "StoredTokens option"
  baseUrl :: string

datatype file_content = Unreadable | Unparseable | Json TokenFile

record machine =
  hostname :: string
  username :: string

record crypto =
  sha256 :: "string \<Rightarrow> byte list"
  aes_encrypt :: "byte list \<Rightarrow> byte list \<Rightarrow> string \<Rightarrow> byte list"
  aes_decrypt :: "byte list \<Rightarrow> byte list \<Rightarrow> byte list \<Rightarrow> string option"
  base64url :: "byte list \<Rightarrow> string"

definition FILE_VERSION :: int where
  "FILE_VERSION = 1"

definition hexdigit :: "nat \<Rightarrow> char" where
  "hexdigit n = ''0123456789abcdef'' ! n"

definition to_hex :: "byte list \<Rightarrow> string" where
  "to_hex bs = concat (map (\<lambda>b. [hexdigit (unat b div 16), hexdigit (unat b mod 16)]) bs)"

fun from_hex :: "string \<Rightarrow> byte list" where
  "from_hex (c1 # c2 # cs) =
     (case hexval c1 of
        None \<Rightarrow> []
      | Some h \<Rightarrow> (case hexval c2 of
                     None \<Rightarrow> []
                   | Some l \<Rightarrow> of_nat (h * 16 + l) # from_hex cs))"
| "from_hex _ = []"

fun split_on :: "char \<Rightarrow> string \<Rightarrow> string list" where
  "split_on c [] = [[]]"
| "split_on c (x # xs) =
     (if x = c then [] # split_on c xs
      else (case split_on c xs of
              p # ps \<Rightarrow> (x # p) # ps
            | [] \<Rightarrow> [[x]]))"

definition getEncryptionKey :: "crypto \<Rightarrow> machine \<Rightarrow> byte list" where
  "getEncryptionKey lib m = sha256 lib (hostname m @ username m)"

definition encrypt :: "crypto \<Rightarrow> machine \<Rightarrow> byte list \<Rightarrow> string \<Rightarrow> string" where
  "encrypt lib m iv text =
     (let key = getEncryptionKey lib m;
          encrypted = to_hex (aes_encrypt lib key iv text)
      in to_hex iv @ '':'' @ encrypted)"

definition decrypt :: "crypto \<Rightarrow> machine \<Rightarrow> string \<Rightarrow> thrown + string" where
  "decrypt lib m text =
     (let key = getEncryptionKey lib m;
          parts = split_on (CHR '':'') text;
          iv = from_hex (hd parts)
      in if length iv \<noteq> 16 then Inl (StdError ''Invalid initialization vector'')
         else (case tl parts of
                 [] \<Rightarrow> Inl (StdError ''The data argument must be of type string'')
               | encrypted # _ \<Rightarrow>
                   if odd (length encrypted)
                   then Inl (StdError ''The argument encoding is invalid for data of odd length'')
                   else (case aes_decrypt lib key iv (from_hex encrypted) of
                           None \<Rightarrow> Inl (StdError ''bad decrypt'')
                         | Some decrypted \<Rightarrow> Inr decrypted)))"


text \<open>
  \<open>saveTokens\<close> gives the content of the credentials file after the write; \<open>loadTokens_try\<close>
  is the body of the \<open>try\<close> block of \<open>loadTokens\<close>, with \<open>Inl\<close> for what it throws, and
  \<open>loadTokens\<close> adds the \<open>catch\<close>, which returns \<open>null\<close>.
\<close>

definition saveTokens ::
  "crypto \<Rightarrow> machine \<Rightarrow> string \<Rightarrow> byte list \<Rightarrow> byte list \<Rightarrow> StoredTokens \<Rightarrow> file_content" where
  "saveTokens lib m base iv1 iv2 toks =
     Json \<lparr> version = FILE_VERSION,
            tokens = Some \<lparr> accessToken = encrypt lib m iv1 (accessToken toks),
                            refreshToken = encrypt lib m iv2 (refreshToken toks),
                            expiresAt = expiresAt toks,
                            scope = scope toks \<rparr>,
            baseUrl = base \<rparr>"

definition loadTokens_try ::
  "crypto \<Rightarrow> machine \<Rightarrow> string \<Rightarrow> file_content option \<Rightarrow> thrown + StoredTokens option" where
  "loadTokens_try lib m base file =
     (case file of
        None \<Rightarrow> Inr None
      | Some Unreadable \<Rightarrow> Inl (StdError ''EACCES: permission denied'')
      | Some Unparseable \<Rightarrow> Inl (StdError ''Unexpected token in JSON'')
      | Some (Json data) \<Rightarrow>
          if version data \<noteq> FILE_VERSION \<or> baseUrl data \<noteq> base then Inr None
          else (case tokens data of
                  None \<Rightarrow> Inr None
                | Some t \<Rightarrow>
                    (case decrypt lib m (accessToken t) of
                       Inl e \<Rightarrow> Inl e
                     | Inr a \<Rightarrow>
                         (case decrypt lib m (refreshToken t) of
                            Inl e \<Rightarrow> Inl e
                          | Inr r \<Rightarrow>
                              Inr (Some \<lparr> accessToken = a, refreshToken = r,
                                          expiresAt = expiresAt t, scope = scope t \<rparr>)))))"

definition loadTokens ::
  "crypto \<Rightarrow> machine \<Rightarrow> string \<Rightarrow> file_content option \<Rightarrow> StoredTokens option" where
  "loadTokens lib m base file =
     (case loadTokens_try lib m base file of Inl error \<Rightarrow> None | Inr result \<Rightarrow> result)"

definition isAccessTokenExpired ::
  "crypto \<Rightarrow> machine \<Rightarrow> string \<Rightarrow> file_content option \<Rightarrow> int \<Rightarrow> bool" where
  "isAccessTokenExpired lib m base file now =
     (case loadTokens lib m base file of
        None \<Rightarrow> True
      | Some toks \<Rightarrow> (let bufferMs = 5 * 60 * 1000 in now \<ge> expiresAt toks * 1000 - bufferMs))"

subsection \<open>Example inputs for the token store\<close>

text \<open>
  A stand-in for the library, to run the definitions on: the hash is the identity on the
  bytes of its input, the cipher prefixes the text with the key and deciphering checks the
  prefix, so that a file written under one machine identity does not decipher under another.
\<close>

definition byte_of_char :: "char \<Rightarrow> byte" where
  "byte_of_char c = word_of_nat (of_char c)"

definition char_of_byte :: "byte \<Rightarrow> char" where
  "char_of_byte b = char_of (unat b)"

definition toy_crypto :: crypto where
  "toy_crypto =
     \<lparr> sha256 = map byte_of_char,
       aes_encrypt = (\<lambda>key iv text. key @ map byte_of_char text),
       aes_decrypt = (\<lambda>key iv bs.
          if take (length key) bs = key then Some (map char_of_byte (drop (length key) bs))
          else None),
       base64url = to_hex \<rparr>"

definition zero_iv :: "byte list" where
  "zero_iv = replicate 16 0"

definition laptop :: machine where
  "laptop = \<lparr> hostname = ''laptop'', username = ''rose'' \<rparr>"

definition desktop :: machine where
  "desktop = \<lparr> hostname = ''desktop'', username = ''rose'' \<rparr>"

definition sample_tokens :: StoredTokens where
  "sample_tokens =
     \<lparr> accessToken = ''at-1'', refreshToken = ''rt-1'', expiresAt = 1300, scope = ''full_access'' \<rparr>"


definition reaudit_url :: string where
  "reaudit_url = ''https://reaudit.io''"

definition sample_file :: "file_content option" where
  "sample_file = Some (saveTokens toy_crypto laptop reaudit_url zero_iv zero_iv sample_tokens)"

definition file_with :: "int \<Rightarrow> string \<Rightarrow> StoredTokens option \<Rightarrow> TokenFile" where
  "file_with v url t = \<lparr> version = v, tokens = t, baseUrl = url \<rparr>"

section \<open>OAuth client (oauth-client.ts)\<close>

text \<open>
  The client runs against an environment that it cannot see ahead: what the token endpoint
  and the API answer to the k-th request sent to them (with the time the answer takes),
  the bytes that \<open>crypto.randomBytes\<close> draws, and what reaches the callback listener during
  the k-th authentication attempt. A request that Axios rejects is \<open>Failed\<close> with the
  message and the response (none for a network error); a 2xx answer is \<open>Ok2xx\<close>.
  The callback port is taken to be free, so that \<open>server.listen\<close> binds, and writing and
  deleting the credentials file are taken to succeed. What is written to the console is
  left out.
\<close>

record TokenResponse =
  access_token :: string
  token_type :: string
  expires_in :: int
  refresh_token :: string
  scope_granted :: string

datatype 'a http_result = Ok2xx 'a | Failed string "response option"

record api_body =
  body_success :: bool
  body_data :: string
  body_error :: "string option"
  body_error_description :: "string option"

record callback_query =
  q_code :: "string option"
  q_state :: "string option"
  q_error :: "string option"

text \<open>
  An event of one authentication attempt: a request arrives at the listener, the answer to
  the oldest token exchange in flight arrives, the five-minute timer fires, or time passes.
\<close>

datatype flow_event =
    Request string callback_query
  | ExchangeDone
  | TimerFires
  | Elapse nat

datatype grant =
    AuthorizationCode "string option" string
  | RefreshGrant string

record env =
  env_crypto :: crypto
  env_machine :: machine
  entropy :: "nat \<Rightarrow> byte"
  token_reply :: "nat \<Rightarrow> nat \<times> TokenResponse http_result"
  api_reply :: "nat \<Rightarrow> nat \<times> api_body http_result"
  browser :: "nat \<Rightarrow> flow_event list"
  env_Date_parse :: "string \<Rightarrow> int option"
  env_Math_random :: "nat \<Rightarrow> rat"

datatype settled = Resolved string | Rejected thrown

text \<open>
  The state of one call of \<open>authenticate\<close>: the values generated at its start, the
  listener (\<open>listening\<close> until \<open>server.close()\<close>, whose calls are counted), the promise
  (\<open>None\<close> while pending; only the first \<open>resolve\<close> or \<open>reject\<close> settles it), the token
  exchanges awaited, whether the timer is still to fire, and the status of each page served.
\<close>

record flow =
  flow_state :: string
  codeVerifier :: string
  codeChallenge :: string
  listening :: bool
  close_calls :: nat
  promise :: "settled option"
  in_flight :: "TokenResponse http_result list"
  timer_armed :: bool
  pages :: "int list"

text \<open>
  What the process changes: the credentials file, the clock (\<open>Date.now()\<close>), the position
  in the entropy stream, the bearer token of each API request sent, each grant posted to the
  token endpoint, and the authentication attempts started and finished.
\<close>

record world =
  cred_file :: "file_content option"
  clock :: int
  entropy_used :: nat
  api_log :: "string list"
  token_log :: "grant list"
  flows_started :: nat
  listeners :: "flow list"

definition randomBytes :: "env \<Rightarrow> nat \<Rightarrow> world \<Rightarrow> byte list \<times> world" where
  "randomBytes e n w =
     (map (entropy e) [entropy_used w ..< entropy_used w + n],
      w \<lparr> entropy_used := entropy_used w + n \<rparr>)"

text \<open>\<open>tokenStore.saveTokens\<close> and \<open>tokenStore.clearTokens\<close>, on the world.\<close>

definition store_saveTokens :: "env \<Rightarrow> string \<Rightarrow> StoredTokens \<Rightarrow> world \<Rightarrow> world" where
  "store_saveTokens e base toks w =
     (case randomBytes e 16 w of
        (iv1, w1) \<Rightarrow>
          (case randomBytes e 16 w1 of
             (iv2, w2) \<Rightarrow>
               w2 \<lparr> cred_file := Some (saveTokens (env_crypto e) (env_machine e) base iv1 iv2 toks) \<rparr>))"

definition store_clearTokens :: "world \<Rightarrow> world" where
  "store_clearTokens w = w \<lparr> cred_file := None \<rparr>"

definition stored_of :: "TokenResponse \<Rightarrow> int \<Rightarrow> StoredTokens" where
  "stored_of r now =
     \<lparr> accessToken = access_token r,
       refreshToken = refresh_token r,
       expiresAt = now div 1000 + expires_in r,
       scope = scope_granted r \<rparr>"

subsection \<open>\<open>refreshToken\<close>\<close>

definition refreshToken_post ::
  "env \<Rightarrow> string \<Rightarrow> string \<Rightarrow> world \<Rightarrow> (thrown + TokenResponse) \<times> world" where
  "refreshToken_post e base rt w =
     (case token_reply e (length (token_log w)) of
        (took, answer) \<Rightarrow>
          (let w1 = w \<lparr> token_log := token_log w @ [RefreshGrant rt],
                         clock := clock w + int took \<rparr>
           in case answer of
                Failed msg resp \<Rightarrow> (Inl (AxiosError msg resp), w1)
              | Ok2xx data \<Rightarrow> (Inr data, store_saveTokens e base (stored_of data (clock w1)) w1)))"

subsection \<open>\<open>authenticate\<close>\<close>

definition server_close :: "flow \<Rightarrow> flow" where
  "server_close f = f \<lparr> listening := False, close_calls := Suc (close_calls f) \<rparr>"

definition settle :: "settled \<Rightarrow> flow \<Rightarrow> flow" where
  "settle v f = (if promise f = None then f \<lparr> promise := Some v \<rparr> else f)"

definition respond :: "int \<Rightarrow> flow \<Rightarrow> flow" where
  "respond st f = f \<lparr> pages := pages f @ [st] \<rparr>"

text \<open>
  The request handler of the listener. A request reaches it only while the server listens.
  With a matching state it calls \<open>exchangeCode\<close>: the POST is sent at once and the handler
  waits for the answer, which \<open>on_exchange_done\<close> continues from.
\<close>

definition on_request ::
  "env \<Rightarrow> string \<Rightarrow> string \<Rightarrow> callback_query \<Rightarrow> flow \<times> world \<Rightarrow> flow \<times> world" where
  "on_request e base pathname q fw =
     (case fw of (f, w) \<Rightarrow>
        if pathname = ''/callback'' then
          (if truthy_str (q_error q) then
             (settle (Rejected (StdError (''OAuth error: '' @ the (q_error q))))
                (server_close (respond 400 f)), w)
           else if q_state q \<noteq> Some (flow_state f) then
             (settle (Rejected (StdError ''State mismatch''))
                (server_close (respond 400 f)), w)
           else
             (f \<lparr> in_flight := in_flight f @ [snd (token_reply e (length (token_log w)))] \<rparr>,
              w \<lparr> token_log := token_log w @ [AuthorizationCode (q_code q) (codeVerifier f)] \<rparr>))
        else (f, w))"

definition on_exchange_done ::
  "env \<Rightarrow> string \<Rightarrow> flow \<times> world \<Rightarrow> flow \<times> world" where
  "on_exchange_done e base fw =
     (case fw of (f, w) \<Rightarrow>
        (case in_flight f of
           [] \<Rightarrow> (f, w)
         | answer # rest \<Rightarrow>
             (let f1 = f \<lparr> in_flight := rest \<rparr> in
              case answer of
                Ok2xx toks \<Rightarrow>
                  (settle (Resolved (access_token toks)) (server_close (respond 200 f1)),
                   store_saveTokens e base (stored_of toks (clock w)) w)
              | Failed msg resp \<Rightarrow>
                  (settle (Rejected (AxiosError msg resp)) (server_close (respond 500 f1)), w))))"

definition on_timeout :: "flow \<times> world \<Rightarrow> flow \<times> world" where
  "on_timeout fw =
     (case fw of (f, w) \<Rightarrow>
        if timer_armed f
        then (settle (Rejected (StdError ''Authentication timeout''))
                (server_close (f \<lparr> timer_armed := False \<rparr>)), w)
        else (f, w))"

definition flow_step :: "env \<Rightarrow> string \<Rightarrow> flow_event \<Rightarrow> flow \<times> world \<Rightarrow> flow \<times> world" where
  "flow_step e base ev fw =
     (case ev of
        Request pathname q \<Rightarrow> (if listening (fst fw) then on_request e base pathname q fw else fw)
      | ExchangeDone \<Rightarrow> on_exchange_done e base fw
      | TimerFires \<Rightarrow> on_timeout fw
      | Elapse d \<Rightarrow> (fst fw, (snd fw) \<lparr> clock := clock (snd fw) + int d \<rparr>))"

fun run_flow :: "env \<Rightarrow> string \<Rightarrow> flow_event list \<Rightarrow> flow \<times> world \<Rightarrow> flow \<times> world" where
  "run_flow e base [] fw = fw"
| "run_flow e base (ev # evs) fw = run_flow e base evs (flow_step e base ev fw)"

text \<open>
  The start of \<open>authenticate\<close>: the verifier, the challenge and the state are generated, the
  server listens and the timer is set. Building the authorization URL and opening the
  browser change nothing that is observed here.
\<close>

definition start_flow :: "env \<Rightarrow> world \<Rightarrow> flow \<times> world" where
  "start_flow e w =
     (case randomBytes e 32 w of
        (vbytes, w1) \<Rightarrow>
          (case randomBytes e 16 w1 of
             (sbytes, w2) \<Rightarrow>
               (\<lparr> flow_state = to_hex sbytes,
                   codeVerifier = base64url (env_crypto e) vbytes,
                   codeChallenge = base64url (env_crypto e) (sha256 (env_crypto e) (base64url (env_crypto e) vbytes)),
                   listening = True,
                   close_calls = 0,
                   promise = None,
                   in_flight = [],
                   timer_armed = True,
                   pages = [] \<rparr>,
                w2 \<lparr> flows_started := Suc (flows_started w2) \<rparr>)))"

text \<open>
  \<open>authenticate\<close> as its caller sees it: the events of this attempt happen, the timer
  fires at the latest after them, and the promise gives its settled value. The timer
  settles a promise that is still pending, so the last case is never taken
  (lemma \<open>authenticate_settles\<close>).
\<close>

definition authenticate :: "env \<Rightarrow> string \<Rightarrow> world \<Rightarrow> (thrown + string) \<times> world" where
  "authenticate e base w =
     (case run_flow e base (browser e (flows_started w) @ [TimerFires]) (start_flow e w) of
        (f, w1) \<Rightarrow>
          ((case promise f of
              Some (Resolved tok) \<Rightarrow> Inr tok
            | Some (Rejected err) \<Rightarrow> Inl err
            | None \<Rightarrow> Inl (StdError ''Authentication timeout'')),
           w1 \<lparr> listeners := listeners w1 @ [f] \<rparr>))"

subsection \<open>\<open>getAccessToken\<close>\<close>

definition getAccessToken :: "env \<Rightarrow> string \<Rightarrow> world \<Rightarrow> (thrown + string) \<times> world" where
  "getAccessToken e base w =
     (case loadTokens (env_crypto e) (env_machine e) base (cred_file w) of
        Some toks \<Rightarrow>
          if \<not> isAccessTokenExpired (env_crypto e) (env_machine e) base (cred_file w) (clock w)
          then (Inr (accessToken toks), w)
          else (case refreshToken_post e base (refreshToken toks) w of
                  (Inr newTokens, w1) \<Rightarrow> (Inr (access_token newTokens), w1)
                | (Inl error, w1) \<Rightarrow> authenticate e base (store_clearTokens w1))
      | None \<Rightarrow> authenticate e base w)"

section \<open>API client (api-client.ts)\<close>

text \<open>
  One HTTP request of the facade: the bearer token is logged, the environment answers.
  The method, the path and the payload do not influence what the client does next and are
  left out.
\<close>

definition http_request :: "env \<Rightarrow> string \<Rightarrow> world \<Rightarrow> api_body http_result \<times> world" where
  "http_request e bearer w =
     (case api_reply e (length (api_log w)) of
        (took, answer) \<Rightarrow>
          (answer, w \<lparr> api_log := api_log w @ [bearer], clock := clock w + int took \<rparr>))"

text \<open>The closure that \<open>request\<close> hands to \<open>withRetry\<close>.\<close>

definition request_once :: "env \<Rightarrow> string \<Rightarrow> world \<Rightarrow> (thrown + string) \<times> world" where
  "request_once e base w =
     (case getAccessToken e base w of
        (Inl err, w1) \<Rightarrow> (Inl err, w1)
      | (Inr accessTok, w1) \<Rightarrow>
          (case http_request e accessTok w1 of
             (Ok2xx body, w2) \<Rightarrow>
               if \<not> body_success body
               then (Inl (StdError (or_default (or_str (body_error_description body) (body_error body))
                                      ''API request failed'')), w2)
               else (Inr (body_data body), w2)
           | (Failed msg resp, w2) \<Rightarrow>
               if (case resp of Some r \<Rightarrow> status r = 401 | None \<Rightarrow> False) then
                 (case getAccessToken e base w2 of
                    (Inl err, w3) \<Rightarrow> (Inl err, w3)
                  | (Inr newToken, w3) \<Rightarrow>
                      (case http_request e newToken w3 of
                         (Ok2xx retryBody, w4) \<Rightarrow>
                           if \<not> body_success retryBody
                           then (Inl (StdError (or_default (body_error_description retryBody)
                                                  ''API request failed'')), w4)
                           else (Inr (body_data retryBody), w4)
                       | (Failed msg2 resp2, w4) \<Rightarrow> (Inl (AxiosError msg2 resp2), w4)))
               else
                 (Inl (StdError (formatErrorForUser
                                   (parseError (env_Date_parse e) (clock w2) (AxiosError msg resp)))),
                  w2)))"

text \<open>
  The time a timer takes: a delay below 1 or above \<open>2^31 - 1\<close> milliseconds is set to 1 by
  the runtime.
\<close>

definition timer_delay :: "jsnum \<Rightarrow> int" where
  "timer_delay d =
     (case d of
        Num n \<Rightarrow> (if 1 \<le> n \<and> n \<le> 2147483647 then n else 1)
      | PosInfinity \<Rightarrow> 1
      | NegInfinity \<Rightarrow> 1)"

definition facade_runtime :: "env \<Rightarrow> world runtime" where
  "facade_runtime e =
     \<lparr> Date_now = clock,
       Date_parse = env_Date_parse e,
       Math_random = env_Math_random e,
       sleep = (\<lambda>d w. w \<lparr> clock := clock w + timer_delay d \<rparr>) \<rparr>"

definition request :: "env \<Rightarrow> string \<Rightarrow> world \<Rightarrow> (world, string) retry_run" where
  "request e base w = withRetry (facade_runtime e) (request_once e base) no_overrides w"

subsection \<open>Example inputs for the client\<close>

definition fresh_world :: world where
  "fresh_world =
     \<lparr> cred_file = None, clock = 1000000, entropy_used = 0, api_log = [], token_log = [],
       flows_started = 0, listeners = [] \<rparr>"

text \<open>A machine that holds \<open>sample_tokens\<close>, which expire at second 1300, at second 400.\<close>

definition signed_in_world :: world where
  "signed_in_world = fresh_world \<lparr> cred_file := sample_file, clock := 400000 \<rparr>"

definition new_tokens :: TokenResponse where
  "new_tokens =
     \<lparr> access_token = ''at-2'', token_type = ''Bearer'', expires_in = 3600,
       refresh_token = ''rt-2'', scope_granted = ''full_access'' \<rparr>"

definition ok_body :: api_body where
  "ok_body =
     \<lparr> body_success = True, body_data = ''{}'', body_error = None,
       body_error_description = None \<rparr>"

text \<open>
  An environment whose API answers 401 to every request, whose token endpoint grants
  \<open>new_tokens\<close>, and whose browser never calls back.
\<close>

definition env_401 :: env where
  "env_401 =
     \<lparr> env_crypto = toy_crypto, env_machine = laptop, entropy = (\<lambda>k. 0),
       token_reply = (\<lambda>k. (120, Ok2xx new_tokens)),
       api_reply = (\<lambda>k. (80, Failed ''Request failed with status code 401''
                                (Some (plain_response 401)))),
       browser = (\<lambda>k. []),
       env_Date_parse = (\<lambda>d. None),
       env_Math_random = (\<lambda>k. 1 / 2) \<rparr>"

definition good_callback :: "flow \<Rightarrow> flow_event" where
  "good_callback f =
     Request ''/callback''
       \<lparr> q_code = Some ''code-1'', q_state = Some (flow_state f), q_error = None \<rparr>"

text \<open>Which posts to the token endpoint are refresh grants.\<close>

definition is_refresh :: "grant \<Rightarrow> bool" where
  "is_refresh g = (case g of RefreshGrant rt \<Rightarrow> True | AuthorizationCode c v \<Rightarrow> False)"

text \<open>
  One authentication attempt from its start, with a script of events that may mention the
  state generated for the attempt.
\<close>

definition run_attempt ::
  "env \<Rightarrow> string \<Rightarrow> (flow \<Rightarrow> flow_event list) \<Rightarrow> world \<Rightarrow> flow \<times> world" where
  "run_attempt e base script w =
     (case start_flow e w of (f, w1) \<Rightarrow> run_flow e base (script f) (f, w1))"

definition happy_path :: "flow \<Rightarrow> flow_event list" where
  "happy_path f = [Elapse 2000, good_callback f, ExchangeDone, Elapse 298000, TimerFires]"

definition denied_forged_query :: callback_query where
  "denied_forged_query =
     \<lparr> q_code = None, q_state = Some ''forged'', q_error = Some ''access_denied'' \<rparr>"

definition denied_forged_callback :: "flow \<Rightarrow> flow_event list" where
  "denied_forged_callback f = [Request ''/callback'' denied_forged_query]"

definition double_callback :: "flow \<Rightarrow> flow_event list" where
  "double_callback f = [good_callback f, good_callback f]"

definition env_refresh_fails :: env where
  "env_refresh_fails =
     env_401 \<lparr> token_reply := (\<lambda>k. (120, Failed ''Request failed with status code 400''
                                           (Some (plain_response 400)))) \<rparr>"

definition env_503 :: env where
  "env_503 =
     env_401 \<lparr> api_reply := (\<lambda>k. (80, Failed ''Request failed with status code 503''
                                        (Some (plain_response 503)))) \<rparr>"

definition stale_world :: world where
  "stale_world = signed_in_world \<lparr> clock := 1200000 \<rparr>"

definition forged_callback :: callback_query where
  "forged_callback = \<lparr> q_code = Some ''code-1'', q_state = Some ''forged'', q_error = None \<rparr>"

section \<open>Properties of the numbers\<close>

lemma bit_length_bound: "n < 2 ^ k \<Longrightarrow> bit_length n \<le> k"
proof (induction k arbitrary: n)
  case 0
  then show ?case by (simp add: bit_length.simps)
next
  case (Suc k)
  show ?case
  proof (cases "n = 0")
    case True
    then show ?thesis by (simp add: bit_length.simps)
  next
    case False
    from Suc.prems have "n div 2 < 2 ^ k" by simp
    from Suc.IH [OF this] False show ?thesis
      by (subst bit_length.simps) simp
  qed
qed

text \<open>Below \<open>2^53\<close> every integer is a double.\<close>

lemma to_double_exact: "\<bar>i\<bar> < 2 ^ 53 \<Longrightarrow> to_double i = Num i"
proof -
  assume "\<bar>i\<bar> < 2 ^ 53"
  then have "nat \<bar>i\<bar> < 2 ^ 53" by (simp add: nat_less_iff)
  from bit_length_bound [OF this] have "round_to_double (nat \<bar>i\<bar>) = Some (nat \<bar>i\<bar>)"
    by (simp add: round_to_double_def)
  then show ?thesis by (simp add: to_double_def)
qed

lemma to_double_rounds_example: "to_double 9007199254740993 = Num 9007199254740992"
  by (simp add: to_double_def round_to_double_def bit_length.simps Let_def)

section \<open>Properties of the retry executor\<close>


lemma withRetry_from_gives_up_at_once:
  assumes "int attempt \<le> maxRetries config"
    and "fn s = (Inl e, s1)"
    and "gives_up config attempt (parseError (Date_parse rt) (Date_now rt s1) e)"
  shows "withRetry_from rt config fn attempt le s
           = \<lparr> outcome = Inl e, final = s1, attempts = [Inl e], waits = [] \<rparr>"
  using assms by (subst withRetry_from.simps) simp

lemma withRetry_from_returns_at_once:
  assumes "int attempt \<le> maxRetries config"
    and "fn s = (Inr v, s1)"
  shows "withRetry_from rt config fn attempt le s
           = \<lparr> outcome = Inr v, final = s1, attempts = [Inr v], waits = [] \<rparr>"
  using assms by (subst withRetry_from.simps) simp

lemma withRetry_from_retries:
  assumes "int attempt \<le> maxRetries config"
    and "fn s = (Inl e, s1)"
    and "\<not> gives_up config attempt (parseError (Date_parse rt) (Date_now rt s1) e)"
  shows "withRetry_from rt config fn attempt le s
           = (let lastError1 = parseError (Date_parse rt) (Date_now rt s1) e;
                  delay = retry_delay (Math_random rt attempt) attempt config lastError1;
                  run = withRetry_from rt config fn (Suc attempt) (Some lastError1)
                          (sleep rt delay s1)
              in run \<lparr> attempts := Inl e # attempts run, waits := delay # waits run \<rparr>)"
  using assms by (subst withRetry_from.simps) (simp add: Let_def)

text \<open>
  With a negative \<open>maxRetries\<close> the loop body never runs: the operation is not called and
  the statement after the loop raises its own error.
\<close>

lemma withRetry_negative_budget:
  assumes "maxRetries (fullConfig config) < 0"
  shows "attempts (withRetry rt fn config s) = []
       \<and> outcome (withRetry rt fn config s) = Inl (StdError ''Retry failed'')"
  using assms unfolding withRetry_def by (subst (1 2) withRetry_from.simps) simp



text \<open>
  The retry budget is reached: an operation that fails with 503 each time is called four
  times under the default configuration, with three waits of thirty seconds.
\<close>

lemma withRetry_server_error_example:
  "length (attempts (withRetry still_runtime (failing_op 503) no_overrides 0)) = 4
   \<and> waits (withRetry still_runtime (failing_op 503) no_overrides 0)
       = [Num 30000, Num 30000, Num 30000]
   \<and> final (withRetry still_runtime (failing_op 503) no_overrides 0) = 4"
  by (simp add: withRetry_def withRetry_from.simps failing_op_def parseError_def
      plain_response_def fullConfig_def no_overrides_def DEFAULT_RETRY_CONFIG_def
      gives_up_def isRetryable_def retry_delay_def truthy_num_def header_retryAfter_def
      still_runtime_def times_1000_def to_double_exact Let_def)

section \<open>Properties of the classifier\<close>

lemma parseInt_empty: "parseInt [] = None"
  by (simp add: parseInt_def)

lemma parseInt_seconds_example: "parseInt ''120'' = Some (Num 120)"
  by (simp add: parseInt_def is_ws_def digit_in_def hexval_def to_double_exact Let_def)

lemma parseInt_zero_example: "parseInt ''0'' = Some (Num 0)"
  by (simp add: parseInt_def is_ws_def digit_in_def hexval_def to_double_exact Let_def)

lemma parseInt_http_date_example: "parseInt ''Wed, 21 Oct 2015 07:28:00 GMT'' = None"
  by (simp add: parseInt_def is_ws_def digit_in_def hexval_def Let_def)

lemma parseInt_no_break_space_example: "parseInt (CHR 0xA0 # ''12'') = Some (Num 12)"
  by (simp add: parseInt_def is_ws_def digit_in_def hexval_def to_double_exact Let_def)

lemma parseInt_rounds_example: "parseInt ''9007199254740993'' = Some (Num 9007199254740992)"
  by (simp add: parseInt_def is_ws_def digit_in_def hexval_def to_double_rounds_example Let_def)

lemma parseError_rate_limit:
  assumes "status r = 429"
  shows "parseError dp now (AxiosError m (Some r)) =
     \<lparr> category = RATE_LIMIT,
       message = or_default (or_str (or_str (data_error_description r) (data_message r)) (data_error r)) m,
       userMessage = getUserMessage RATE_LIMIT None,
       suggestion = getSuggestion RATE_LIMIT,
       retryable = True,
       retryAfter = (if truthy_num (header_retryAfter dp now RATE_LIMIT r)
                     then header_retryAfter dp now RATE_LIMIT r else Some (Num 30)),
       originalError = Some (AxiosError m (Some r)) \<rparr>"
  using assms by (simp add: parseError_def Let_def isRetryable_def)

text \<open>
  Every failure that \<open>parseError\<close> marks retryable carries a truthy \<open>retryAfter\<close>, so the
  wait of \<open>withRetry\<close> never comes from \<open>calculateRetryDelay\<close>.
\<close>

lemma retryable_has_retryAfter:
  "retryable (parseError dp now e) \<Longrightarrow> truthy_num (retryAfter (parseError dp now e))"
proof (cases e)
  case (AxiosError m ro)
  have t30: "truthy_num (Some (Num 30))" and t5: "truthy_num (Some (Num 5))"
    by (simp_all add: truthy_num_def)
  assume r: "retryable (parseError dp now e)"
  show ?thesis
  proof (cases ro)
    case None
    with AxiosError t5 show ?thesis by (simp add: parseError_def)
  next
    case (Some resp)
    with AxiosError r t30 show ?thesis by (simp add: parseError_def Let_def)
  qed
next
  case (StdError m)
  assume "retryable (parseError dp now e)"
  with StdError show ?thesis by (simp add: parseError_def)
next
  case (NonError v)
  assume "retryable (parseError dp now e)"
  with NonError show ?thesis by (simp add: parseError_def)
qed

lemma retry_delay_never_backoff:
  "retryable (parseError dp now e) \<Longrightarrow>
     retry_delay rnd k cfg (parseError dp now e)
       = times_1000 (the (retryAfter (parseError dp now e)))"
  using retryable_has_retryAfter [of dp now e] by (simp add: retry_delay_def)

lemma rate_limit_no_header:
  assumes "status r = 429" and "\<not> truthy_str (retry_after_header r)"
  shows "retryAfter (parseError dp now (AxiosError m (Some r))) = Some (Num 30)"
    and "retry_delay rnd k cfg (parseError dp now (AxiosError m (Some r))) = Num 30000"
proof -
  from assms(2) have "header_retryAfter dp now RATE_LIMIT r = None"
    by (cases "retry_after_header r") (simp_all add: header_retryAfter_def)
  then show "retryAfter (parseError dp now (AxiosError m (Some r))) = Some (Num 30)"
    and "retry_delay rnd k cfg (parseError dp now (AxiosError m (Some r))) = Num 30000"
    by (simp_all add: parseError_rate_limit [OF assms(1)] retry_delay_def truthy_num_def
        times_1000_def to_double_exact)
qed

subsection \<open>The waits of the executor\<close>

lemma withRetry_from_budget_spent:
  "\<not> int attempt \<le> maxRetries config \<Longrightarrow>
     waits (withRetry_from rt config fn attempt le s) = []"
  by (subst withRetry_from.simps) simp

text \<open>
  In every run of \<open>withRetry\<close>, whatever the operation, the configuration and the random
  draws, each wait is the \<open>retryAfter\<close> of a classified failure times 1000: the computed
  backoff is never waited.
\<close>

lemma withRetry_from_waits:
  "\<forall>d \<in> set (waits (withRetry_from rt config fn attempt le s)).
     \<exists>e now. retryable (parseError (Date_parse rt) now e)
            \<and> d = times_1000 (the (retryAfter (parseError (Date_parse rt) now e)))"
proof (induction rt config fn attempt le s rule: withRetry_from.induct)
  case (1 rt config fn attempt lastError s)
  show ?case
  proof (cases "int attempt \<le> maxRetries config")
    case False
    then show ?thesis by (simp add: withRetry_from_budget_spent)
  next
    case True
    obtain r s1 where fs: "fn s = (r, s1)" by (cases "fn s")
    show ?thesis
    proof (cases r)
      case (Inr v)
      with fs True show ?thesis
        by (simp add: withRetry_from_returns_at_once)
    next
      case (Inl error)
      show ?thesis
      proof (cases "gives_up config attempt (parseError (Date_parse rt) (Date_now rt s1) error)")
        case g: True
        from True fs [unfolded Inl] g show ?thesis
          by (simp add: withRetry_from_gives_up_at_once)
      next
        case g: False
        then have rt: "retryable (parseError (Date_parse rt) (Date_now rt s1) error)"
          by (simp add: gives_up_def)
        note ih = "1.IH" [OF True fs [symmetric] Inl refl g refl]
        from True fs [unfolded Inl] g
        have "withRetry_from rt config fn attempt lastError s
                = (let lastError1 = parseError (Date_parse rt) (Date_now rt s1) error;
                       delay = retry_delay (Math_random rt attempt) attempt config lastError1;
                       run = withRetry_from rt config fn (Suc attempt) (Some lastError1)
                               (sleep rt delay s1)
                   in run \<lparr> attempts := Inl error # attempts run, waits := delay # waits run \<rparr>)"
          by (rule withRetry_from_retries)
        with retry_delay_never_backoff [OF rt] rt ih show ?thesis
          by (auto simp: Let_def)
      qed
    qed
  qed
qed

text \<open>
  An operation that keeps failing with a 429 without a \<open>retry-after\<close> header is retried
  after thirty seconds each time, under every configuration.
\<close>

lemma rate_limit_waits_thirty_seconds:
  "\<forall>s. \<exists>m r s1. fn s = (Inl (AxiosError m (Some r)), s1) \<and> status r = 429
                  \<and> \<not> truthy_str (retry_after_header r) \<Longrightarrow>
   set (waits (withRetry_from rt config fn attempt le s)) \<subseteq> {Num 30000}"
proof (induction rt config fn attempt le s rule: withRetry_from.induct)
  case (1 rt config fn attempt lastError s)
  show ?case
  proof (cases "int attempt \<le> maxRetries config")
    case False
    then show ?thesis by (simp add: withRetry_from_budget_spent)
  next
    case True
    obtain r0 s1 where fs: "fn s = (r0, s1)" by (cases "fn s")
    with "1.prems" obtain m r
      where r0: "r0 = Inl (AxiosError m (Some r))"
        and st: "status r = 429" and nh: "\<not> truthy_str (retry_after_header r)"
      by (metis prod.inject)
    show ?thesis
    proof (cases "gives_up config attempt
                    (parseError (Date_parse rt) (Date_now rt s1) (AxiosError m (Some r)))")
      case g: True
      from True fs [unfolded r0] g show ?thesis
        by (simp add: withRetry_from_gives_up_at_once)
    next
      case g: False
      note ih = "1.IH" [OF True fs [symmetric] r0 refl g refl "1.prems"]
      from True fs [unfolded r0] g
      have "withRetry_from rt config fn attempt lastError s
              = (let lastError1 = parseError (Date_parse rt) (Date_now rt s1)
                                    (AxiosError m (Some r));
                     delay = retry_delay (Math_random rt attempt) attempt config lastError1;
                     run = withRetry_from rt config fn (Suc attempt) (Some lastError1)
                             (sleep rt delay s1)
                 in run \<lparr> attempts := Inl (AxiosError m (Some r)) # attempts run,
                          waits := delay # waits run \<rparr>)"
        by (rule withRetry_from_retries)
      with rate_limit_no_header(2) [OF st nh] ih show ?thesis
        by (auto simp: Let_def)
    qed
  qed
qed

text \<open>
  C4, at its failing input: an operation that fails with a 429 that carries no
  \<open>retry-after\<close> header, under the default configuration. The classifier sets
  \<open>retryAfter = 30\<close> on the classified error, and the three waits of \<open>withRetry\<close> are
  30000 ms each, where the computed backoff of the attempts 0, 1 and 2 is 1000, 2000 and
  4000 ms (with the random draw that gives no jitter).
\<close>

theorem rate_limit_without_header_waits_default:
  "retryAfter (parseError (Date_parse still_runtime) (Date_now still_runtime 1)
       (AxiosError ''Request failed'' (Some (plain_response 429)))) = Some (Num 30)
   \<and> waits (withRetry still_runtime (failing_op 429) no_overrides 0)
       = [Num 30000, Num 30000, Num 30000]
   \<and> map (\<lambda>k. calculateRetryDelay (Math_random still_runtime k) k (fullConfig no_overrides))
        [0, 1, 2] = [1000, 2000, 4000]"
  by (simp add: withRetry_def withRetry_from.simps failing_op_def parseError_def
      plain_response_def fullConfig_def no_overrides_def DEFAULT_RETRY_CONFIG_def
      gives_up_def isRetryable_def retry_delay_def truthy_num_def header_retryAfter_def
      calculateRetryDelay_def still_runtime_def times_1000_def to_double_exact Let_def)

text \<open>
  A header that gives a non-zero number of seconds is waited for, in milliseconds; a header
  of \<open>0\<close> is falsy and gives the thirty seconds of the default as well.
\<close>

lemma rate_limit_header_example:
  "waits (withRetry still_runtime (rate_limited_op ''120'') no_overrides 0)
     = [Num 120000, Num 120000, Num 120000]
   \<and> waits (withRetry still_runtime (rate_limited_op ''0'') no_overrides 0)
     = [Num 30000, Num 30000, Num 30000]"
proof -
  have s: "status (header_response 429 h) = 429"
    and h: "retry_after_header (header_response 429 h) = Some h" for h
    by (simp_all add: header_response_def plain_response_def)
  have d120: "retry_delay rnd k cfg (parseError dp now
                (AxiosError m (Some (header_response 429 ''120'')))) = Num 120000"
    and d0: "retry_delay rnd k cfg (parseError dp now
                (AxiosError m (Some (header_response 429 ''0'')))) = Num 30000"
    for rnd k cfg dp now m
    by (simp_all add: parseError_rate_limit [OF s] header_retryAfter_def h
        parseInt_seconds_example parseInt_zero_example retry_delay_def truthy_num_def
        times_1000_def to_double_exact)
  have g: "gives_up (fullConfig no_overrides) k
             (parseError dp now (AxiosError m (Some (header_response 429 hd)))) \<longleftrightarrow> k = 3"
    for k dp now m hd
    by (simp add: gives_up_def parseError_rate_limit [OF s] fullConfig_def no_overrides_def
        DEFAULT_RETRY_CONFIG_def)
  show ?thesis
    by (simp add: withRetry_def withRetry_from.simps rate_limited_op_def g d120 d0
        still_runtime_def Let_def)
      (simp add: fullConfig_def no_overrides_def DEFAULT_RETRY_CONFIG_def)
qed

section \<open>Properties of the token store\<close>

lemma hexval_hexdigit_all: "\<forall>n \<in> set [0..<16]. hexval (hexdigit n) = Some n \<and> hexdigit n \<noteq> CHR '':''"
  by code_simp

lemma hexval_hexdigit: "n < 16 \<Longrightarrow> hexval (hexdigit n) = Some n"
  using hexval_hexdigit_all by simp

lemma hexdigit_not_colon: "n < 16 \<Longrightarrow> hexdigit n \<noteq> CHR '':''"
  using hexval_hexdigit_all by simp

lemma from_hex_to_hex: "from_hex (to_hex bs) = bs"
proof (induction bs)
  case Nil
  show ?case by (simp add: to_hex_def)
next
  case (Cons b bs)
  have lt: "unat b < 256" using unsigned_less [of b] by simp
  then have d: "unat b div 16 < 16" and m: "unat b mod 16 < 16" by simp_all
  have "(of_nat (unat b div 16 * 16 + unat b mod 16) :: byte) = b"
    by simp
  with Cons d m show ?case
    by (simp add: to_hex_def hexval_hexdigit)
qed

lemma colon_not_in_to_hex: "CHR '':'' \<notin> set (to_hex bs)"
proof (induction bs)
  case Nil
  show ?case by (simp add: to_hex_def)
next
  case (Cons b bs)
  have lt: "unat b < 256" using unsigned_less [of b] by simp
  then have d: "unat b div 16 < 16" and m: "unat b mod 16 < 16" by simp_all
  from Cons hexdigit_not_colon [OF d] hexdigit_not_colon [OF m] show ?case
    by (auto simp: to_hex_def)
qed

lemma split_on_nonempty: "split_on c xs \<noteq> []"
  by (induction xs) (auto split: list.splits)

lemma split_on_absent: "c \<notin> set xs \<Longrightarrow> split_on c xs = [xs]"
  by (induction xs) auto

lemma split_on_first: "c \<notin> set a \<Longrightarrow> split_on c (a @ c # b) = a # split_on c b"
  by (induction a) auto

lemma length_to_hex: "length (to_hex bs) = 2 * length bs"
  by (induction bs) (simp_all add: to_hex_def)

lemma decrypt_encrypt:
  assumes "length iv = 16"
    and "aes_decrypt lib (getEncryptionKey lib m) iv (aes_encrypt lib (getEncryptionKey lib m) iv text) = Some text"
  shows "decrypt lib m (encrypt lib m iv text) = Inr text"
proof -
  have "split_on (CHR '':'') (encrypt lib m iv text)
          = [to_hex iv, to_hex (aes_encrypt lib (getEncryptionKey lib m) iv text)]"
    using split_on_first [OF colon_not_in_to_hex, of iv]
          split_on_absent [OF colon_not_in_to_hex]
    by (simp add: encrypt_def)
  with assms show ?thesis
    by (simp add: decrypt_def from_hex_to_hex length_to_hex)
qed

lemma char_of_byte_of_char: "char_of_byte (byte_of_char c) = c"
proof -
  have "(of_char c :: nat) < 256" by (rule nat_of_char_less_256)
  then have "unat (word_of_nat (of_char c) :: byte) = of_char c"
    by (simp add: unat_of_nat take_bit_eq_mod)
  then show ?thesis by (simp add: byte_of_char_def char_of_byte_def)
qed

lemma toy_crypto_inverts:
  "aes_decrypt toy_crypto key iv (aes_encrypt toy_crypto key iv text) = Some text"
  by (simp add: toy_crypto_def comp_def char_of_byte_of_char)

lemma loadTokens_saveTokens:
  assumes "length iv1 = 16" and "length iv2 = 16"
    and "aes_decrypt lib (getEncryptionKey lib m) iv1
           (aes_encrypt lib (getEncryptionKey lib m) iv1 (accessToken toks)) = Some (accessToken toks)"
    and "aes_decrypt lib (getEncryptionKey lib m) iv2
           (aes_encrypt lib (getEncryptionKey lib m) iv2 (refreshToken toks)) = Some (refreshToken toks)"
  shows "loadTokens lib m base (Some (saveTokens lib m base iv1 iv2 toks)) = Some toks"
  using assms
  by (simp add: loadTokens_def loadTokens_try_def saveTokens_def decrypt_encrypt)


text \<open>
  C7. A credential record saved and then loaded with the same base URL on the same machine
  identity comes back equal in all four fields. The cipher is a parameter, so the theorem
  asks of it what AES-CBC provides: deciphering what was enciphered under the same key and
  initialisation vector gives the text back; the vectors have the sixteen bytes that
  \<open>randomBytes(16)\<close> returns.
\<close>

theorem save_then_load_roundtrip:
  assumes "length iv1 = 16" and "length iv2 = 16"
    and "aes_decrypt lib (getEncryptionKey lib m) iv1
           (aes_encrypt lib (getEncryptionKey lib m) iv1 (accessToken toks)) = Some (accessToken toks)"
    and "aes_decrypt lib (getEncryptionKey lib m) iv2
           (aes_encrypt lib (getEncryptionKey lib m) iv2 (refreshToken toks)) = Some (refreshToken toks)"
  shows "loadTokens lib m base (Some (saveTokens lib m base iv1 iv2 toks)) = Some toks
       \<and> loadTokens_try lib m base (Some (saveTokens lib m base iv1 iv2 toks)) = Inr (Some toks)"
  using assms
  by (simp add: loadTokens_def loadTokens_try_def saveTokens_def decrypt_encrypt)

theorem save_then_load_roundtrip_witness:
  "length zero_iv = 16
   \<and> aes_decrypt toy_crypto (getEncryptionKey toy_crypto laptop) zero_iv
        (aes_encrypt toy_crypto (getEncryptionKey toy_crypto laptop) zero_iv
           (accessToken sample_tokens)) = Some (accessToken sample_tokens)
   \<and> aes_decrypt toy_crypto (getEncryptionKey toy_crypto laptop) zero_iv
        (aes_encrypt toy_crypto (getEncryptionKey toy_crypto laptop) zero_iv
           (refreshToken sample_tokens)) = Some (refreshToken sample_tokens)
   \<and> loadTokens toy_crypto laptop ''https://reaudit.io''
        (Some (saveTokens toy_crypto laptop ''https://reaudit.io'' zero_iv zero_iv sample_tokens))
       = Some sample_tokens"
proof -
  have l: "length zero_iv = 16" by (simp add: zero_iv_def)
  from save_then_load_roundtrip [where lib = toy_crypto and m = laptop and toks = sample_tokens
         and base = "''https://reaudit.io''", OF l l toy_crypto_inverts toy_crypto_inverts]
       l toy_crypto_inverts
  show ?thesis by simp
qed

lemma loadTokens_try_raises:
  "loadTokens_try lib m base file = Inl e \<Longrightarrow> loadTokens lib m base file = None"
  by (simp add: loadTokens_def)

lemma decrypt_fails_wrong_key:
  assumes "aes_decrypt lib (getEncryptionKey lib m2) iv
             (aes_encrypt lib (getEncryptionKey lib m1) iv text) = None"
  shows "\<exists>e. decrypt lib m2 (encrypt lib m1 iv text) = Inl e"
proof -
  have "split_on (CHR '':'') (encrypt lib m1 iv text)
          = [to_hex iv, to_hex (aes_encrypt lib (getEncryptionKey lib m1) iv text)]"
    using split_on_first [OF colon_not_in_to_hex, of iv]
          split_on_absent [OF colon_not_in_to_hex]
    by (simp add: encrypt_def)
  with assms show ?thesis
    by (simp add: decrypt_def from_hex_to_hex length_to_hex)
qed

text \<open>
  C8. \<open>loadTokens\<close> returns \<open>null\<close> when the file is missing, cannot be read, does not
  parse, has another version, was issued for another base URL, holds \<open>tokens: null\<close>, or
  holds a field that does not decipher, in particular a file written under another machine
  identity whose key does not decipher it. What the body throws is caught: the result of
  \<open>loadTokens\<close> is a value in every case.
\<close>

theorem loadTokens_degenerate:
  "loadTokens lib m base None = None
   \<and> loadTokens lib m base (Some Unreadable) = None
   \<and> loadTokens lib m base (Some Unparseable) = None
   \<and> (version data \<noteq> FILE_VERSION \<longrightarrow> loadTokens lib m base (Some (Json data)) = None)
   \<and> (baseUrl data \<noteq> base \<longrightarrow> loadTokens lib m base (Some (Json data)) = None)
   \<and> (tokens data = None \<longrightarrow> loadTokens lib m base (Some (Json data)) = None)
   \<and> (\<forall>t e. tokens data = Some t
             \<and> (decrypt lib m (accessToken t) = Inl e \<or> decrypt lib m (refreshToken t) = Inl e)
         \<longrightarrow> loadTokens lib m base (Some (Json data)) = None)
   \<and> (aes_decrypt lib (getEncryptionKey lib m) iv1
         (aes_encrypt lib (getEncryptionKey lib m1) iv1 (accessToken toks)) = None
       \<longrightarrow> loadTokens lib m base (Some (saveTokens lib m1 base iv1 iv2 toks)) = None)"
proof (intro conjI impI allI)
  show "loadTokens lib m base None = None"
    and "loadTokens lib m base (Some Unreadable) = None"
    and "loadTokens lib m base (Some Unparseable) = None"
    by (simp_all add: loadTokens_def loadTokens_try_def)
next
  assume "version data \<noteq> FILE_VERSION"
  then show "loadTokens lib m base (Some (Json data)) = None"
    by (simp add: loadTokens_def loadTokens_try_def)
next
  assume "baseUrl data \<noteq> base"
  then show "loadTokens lib m base (Some (Json data)) = None"
    by (simp add: loadTokens_def loadTokens_try_def)
next
  assume "tokens data = None"
  then show "loadTokens lib m base (Some (Json data)) = None"
    by (simp add: loadTokens_def loadTokens_try_def)
next
  fix t e
  assume "tokens data = Some t
           \<and> (decrypt lib m (accessToken t) = Inl e \<or> decrypt lib m (refreshToken t) = Inl e)"
  then show "loadTokens lib m base (Some (Json data)) = None"
    by (auto simp: loadTokens_def loadTokens_try_def split: sum.splits)
next
  assume "aes_decrypt lib (getEncryptionKey lib m) iv1
            (aes_encrypt lib (getEncryptionKey lib m1) iv1 (accessToken toks)) = None"
  from decrypt_fails_wrong_key [OF this]
  obtain e where "decrypt lib m (encrypt lib m1 iv1 (accessToken toks)) = Inl e" ..
  then show "loadTokens lib m base (Some (saveTokens lib m1 base iv1 iv2 toks)) = None"
    by (simp add: loadTokens_def loadTokens_try_def saveTokens_def)
qed

lemma sample_file_loads: "loadTokens toy_crypto laptop reaudit_url sample_file = Some sample_tokens"
proof -
  have l: "length zero_iv = 16" by (simp add: zero_iv_def)
  show ?thesis
    unfolding sample_file_def
    by (rule loadTokens_saveTokens [OF l l toy_crypto_inverts toy_crypto_inverts])
qed

theorem loadTokens_degenerate_witness:
  "version (file_with 2 reaudit_url None) \<noteq> FILE_VERSION
   \<and> loadTokens toy_crypto laptop reaudit_url (Some (Json (file_with 2 reaudit_url None))) = None
   \<and> baseUrl (file_with 1 ''https://staging.reaudit.io'' None) \<noteq> reaudit_url
   \<and> loadTokens toy_crypto laptop reaudit_url
        (Some (Json (file_with 1 ''https://staging.reaudit.io'' None))) = None
   \<and> tokens (file_with 1 reaudit_url None) = None
   \<and> loadTokens toy_crypto laptop reaudit_url (Some (Json (file_with 1 reaudit_url None))) = None
   \<and> tokens (file_with 1 reaudit_url (Some sample_tokens)) = Some sample_tokens
   \<and> decrypt toy_crypto laptop (accessToken sample_tokens)
       = Inl (StdError ''Invalid initialization vector'')
   \<and> loadTokens toy_crypto laptop reaudit_url
        (Some (Json (file_with 1 reaudit_url (Some sample_tokens)))) = None
   \<and> aes_decrypt toy_crypto (getEncryptionKey toy_crypto desktop) zero_iv
        (aes_encrypt toy_crypto (getEncryptionKey toy_crypto laptop) zero_iv
           (accessToken sample_tokens)) = None
   \<and> loadTokens toy_crypto desktop reaudit_url sample_file = None"
proof -
  have v: "version (file_with 2 reaudit_url None) \<noteq> FILE_VERSION"
    by (simp add: file_with_def FILE_VERSION_def)
  have b: "baseUrl (file_with 1 ''https://staging.reaudit.io'' None) \<noteq> reaudit_url"
    by (simp add: file_with_def reaudit_url_def)
  have n: "tokens (file_with 1 reaudit_url None) = None"
    by (simp add: file_with_def)
  have t: "tokens (file_with 1 reaudit_url (Some sample_tokens)) = Some sample_tokens"
    by (simp add: file_with_def)
  have d: "decrypt toy_crypto laptop (accessToken sample_tokens)
             = Inl (StdError ''Invalid initialization vector'')"
    by (simp add: decrypt_def sample_tokens_def Let_def hexval_def)
  have k: "aes_decrypt toy_crypto (getEncryptionKey toy_crypto desktop) zero_iv
             (aes_encrypt toy_crypto (getEncryptionKey toy_crypto laptop) zero_iv
                (accessToken sample_tokens)) = None"
    by (simp add: toy_crypto_def getEncryptionKey_def laptop_def desktop_def byte_of_char_def)
  note w1 = loadTokens_degenerate [of toy_crypto laptop reaudit_url "file_with 2 reaudit_url None"]
  note w2 = loadTokens_degenerate
              [of toy_crypto laptop reaudit_url "file_with 1 ''https://staging.reaudit.io'' None"]
  note w3 = loadTokens_degenerate [of toy_crypto laptop reaudit_url "file_with 1 reaudit_url None"]
  note w4 = loadTokens_degenerate
              [of toy_crypto laptop reaudit_url "file_with 1 reaudit_url (Some sample_tokens)"]
  note w5 = loadTokens_degenerate
              [of toy_crypto desktop reaudit_url _ zero_iv laptop sample_tokens zero_iv]
  have r1: "loadTokens toy_crypto laptop reaudit_url (Some (Json (file_with 2 reaudit_url None))) = None"
    using w1 v by blast
  have r2: "loadTokens toy_crypto laptop reaudit_url
              (Some (Json (file_with 1 ''https://staging.reaudit.io'' None))) = None"
    using w2 b by blast
  have r3: "loadTokens toy_crypto laptop reaudit_url (Some (Json (file_with 1 reaudit_url None))) = None"
    using w3 n by blast
  have r4: "loadTokens toy_crypto laptop reaudit_url
              (Some (Json (file_with 1 reaudit_url (Some sample_tokens)))) = None"
    using w4 t d by blast
  have r5: "loadTokens toy_crypto desktop reaudit_url sample_file = None"
    using w5 k unfolding sample_file_def by blast
  from v r1 b r2 n r3 t d r4 k r5 show ?thesis by blast
qed

lemma isAccessTokenExpired_iff:
  "isAccessTokenExpired lib m base file now \<longleftrightarrow>
     (case loadTokens lib m base file of
        None \<Rightarrow> True
      | Some toks \<Rightarrow> expiresAt toks * 1000 - now \<le> 300 * 1000)"
  by (auto simp: isAccessTokenExpired_def split: option.splits)

text \<open>
  C9, as stated, fails at its boundary: with \<open>expiresAt = 1300\<close> and the clock at
  \<open>1000000\<close> ms, so that \<open>expiresAt - now\<close> is exactly 300 seconds, the token counts as
  expired.
\<close>

theorem isAccessTokenExpired_boundary_counterexample:
  "loadTokens toy_crypto laptop reaudit_url sample_file = Some sample_tokens
   \<and> expiresAt sample_tokens * 1000 - 1000000 = 300 * 1000
   \<and> isAccessTokenExpired toy_crypto laptop reaudit_url sample_file 1000000"
  using sample_file_loads
  by (simp add: isAccessTokenExpired_def sample_tokens_def)

text \<open>
  C9, amended. \<open>isAccessTokenExpired\<close> is true when no credentials can be loaded, and
  otherwise exactly when \<open>expiresAt - now \<le> 300\<close> seconds: in the milliseconds of the
  clock, and equally with \<open>now\<close> in whole seconds. At \<open>expiresAt - now = 300\<close> it is true.
\<close>

theorem isAccessTokenExpired_buffer:
  "(loadTokens lib m base file = None \<longrightarrow> isAccessTokenExpired lib m base file now)
   \<and> (\<forall>toks. loadTokens lib m base file = Some toks \<longrightarrow>
         (isAccessTokenExpired lib m base file now \<longleftrightarrow> expiresAt toks * 1000 - now \<le> 300 * 1000)
       \<and> (isAccessTokenExpired lib m base file now \<longleftrightarrow> expiresAt toks - now div 1000 \<le> 300))"
proof (intro conjI impI allI)
  assume "loadTokens lib m base file = None"
  then show "isAccessTokenExpired lib m base file now"
    by (simp add: isAccessTokenExpired_def)
next
  fix toks
  assume l: "loadTokens lib m base file = Some toks"
  then show ms: "isAccessTokenExpired lib m base file now
                   \<longleftrightarrow> expiresAt toks * 1000 - now \<le> 300 * 1000"
    by (auto simp: isAccessTokenExpired_def)
  have "expiresAt toks * 1000 - now \<le> 300 * 1000 \<longleftrightarrow> expiresAt toks - now div 1000 \<le> 300"
    by linarith
  with ms show "isAccessTokenExpired lib m base file now
                   \<longleftrightarrow> expiresAt toks - now div 1000 \<le> 300"
    by simp
qed

theorem isAccessTokenExpired_buffer_witness:
  "loadTokens toy_crypto laptop reaudit_url None = None
   \<and> isAccessTokenExpired toy_crypto laptop reaudit_url None 0
   \<and> loadTokens toy_crypto laptop reaudit_url sample_file = Some sample_tokens
   \<and> expiresAt sample_tokens * 1000 - 1000000 \<le> 300 * 1000
   \<and> isAccessTokenExpired toy_crypto laptop reaudit_url sample_file 1000000
   \<and> \<not> expiresAt sample_tokens * 1000 - 999999 \<le> 300 * 1000
   \<and> \<not> isAccessTokenExpired toy_crypto laptop reaudit_url sample_file 999999"
proof -
  have n: "loadTokens toy_crypto laptop reaudit_url None = None"
    by (simp add: loadTokens_def loadTokens_try_def)
  have a: "expiresAt sample_tokens * 1000 - 1000000 \<le> 300 * 1000"
    and b: "\<not> expiresAt sample_tokens * 1000 - 999999 \<le> 300 * 1000"
    by (simp_all add: sample_tokens_def)
  from isAccessTokenExpired_buffer [of toy_crypto laptop reaudit_url None 0] n
  have r0: "isAccessTokenExpired toy_crypto laptop reaudit_url None 0" by blast
  from isAccessTokenExpired_buffer [of toy_crypto laptop reaudit_url sample_file 1000000]
       sample_file_loads a
  have r1: "isAccessTokenExpired toy_crypto laptop reaudit_url sample_file 1000000" by blast
  from isAccessTokenExpired_buffer [of toy_crypto laptop reaudit_url sample_file 999999]
       sample_file_loads b
  have r2: "\<not> isAccessTokenExpired toy_crypto laptop reaudit_url sample_file 999999" by blast
  from n r0 sample_file_loads a r1 b r2 show ?thesis by blast
qed

section \<open>Properties of the OAuth client\<close>

lemma store_saveTokens_fields:
  "clock (store_saveTokens e base toks w) = clock w"
  "api_log (store_saveTokens e base toks w) = api_log w"
  "token_log (store_saveTokens e base toks w) = token_log w"
  "flows_started (store_saveTokens e base toks w) = flows_started w"
  "listeners (store_saveTokens e base toks w) = listeners w"
  "entropy_used (store_saveTokens e base toks w) = entropy_used w + 32"
  "cred_file (store_saveTokens e base toks w)
     = Some (saveTokens (env_crypto e) (env_machine e) base
               (map (entropy e) [entropy_used w ..< entropy_used w + 16])
               (map (entropy e) [entropy_used w + 16 ..< entropy_used w + 32]) toks)"
  by (simp_all add: store_saveTokens_def randomBytes_def add.assoc)

lemma settle_fields:
  "listening (settle v f) = listening f"
  "close_calls (settle v f) = close_calls f"
  "in_flight (settle v f) = in_flight f"
  "timer_armed (settle v f) = timer_armed f"
  "flow_state (settle v f) = flow_state f"
  "codeVerifier (settle v f) = codeVerifier f"
  "pages (settle v f) = pages f"
  "promise (settle v f) = (if promise f = None then Some v else promise f)"
  by (simp_all add: settle_def)

lemma server_close_fields:
  "listening (server_close f) = False"
  "close_calls (server_close f) = Suc (close_calls f)"
  "in_flight (server_close f) = in_flight f"
  "timer_armed (server_close f) = timer_armed f"
  "flow_state (server_close f) = flow_state f"
  "codeVerifier (server_close f) = codeVerifier f"
  "pages (server_close f) = pages f"
  "promise (server_close f) = promise f"
  by (simp_all add: server_close_def)

lemma respond_fields:
  "listening (respond st f) = listening f"
  "close_calls (respond st f) = close_calls f"
  "in_flight (respond st f) = in_flight f"
  "timer_armed (respond st f) = timer_armed f"
  "flow_state (respond st f) = flow_state f"
  "codeVerifier (respond st f) = codeVerifier f"
  "pages (respond st f) = pages f @ [st]"
  "promise (respond st f) = promise f"
  by (simp_all add: respond_def)

lemmas flow_fields = settle_fields server_close_fields respond_fields

text \<open>What one event preserves.\<close>

definition flow_inv :: "flow \<Rightarrow> bool" where
  "flow_inv f = ((listening f \<longrightarrow> promise f = None) \<and> (\<not> timer_armed f \<longrightarrow> promise f \<noteq> None))"

lemma flow_step_inv:
  assumes "flow_inv f" and "flow_step e base ev (f, w) = (f', w')"
  shows "flow_inv f'"
proof (cases ev)
  case (Request pathname q)
  with assms show ?thesis
    by (auto simp: flow_step_def on_request_def flow_inv_def flow_fields split: if_splits)
next
  case ExchangeDone
  with assms show ?thesis
    by (auto simp: flow_step_def on_exchange_done_def flow_inv_def flow_fields Let_def
        split: list.splits http_result.splits if_splits)
next
  case TimerFires
  with assms show ?thesis
    by (auto simp: flow_step_def on_timeout_def flow_inv_def flow_fields split: if_splits)
next
  case (Elapse d)
  with assms show ?thesis
    by (auto simp: flow_step_def)
qed

lemma run_flow_inv:
  "flow_inv f \<Longrightarrow> run_flow e base evs (f, w) = (f', w') \<Longrightarrow> flow_inv f'"
proof (induction evs arbitrary: f w)
  case Nil
  then show ?case by simp
next
  case (Cons ev evs)
  obtain f1 w1 where s: "flow_step e base ev (f, w) = (f1, w1)"
    by (cases "flow_step e base ev (f, w)")
  from flow_step_inv [OF Cons.prems(1) s] Cons.IH [of f1 w1] Cons.prems(2) s
  show ?case by simp
qed

lemma start_flow_inv: "start_flow e w = (f, w1) \<Longrightarrow> flow_inv f"
  by (auto simp: start_flow_def randomBytes_def flow_inv_def)

lemma run_flow_append:
  "run_flow e base (evs @ evs') fw = run_flow e base evs' (run_flow e base evs fw)"
  by (induction evs arbitrary: fw) simp_all

lemma on_request_state_mismatch:
  assumes "q_state q \<noteq> Some (flow_state f)"
  shows "on_request e base ''/callback'' q (f, w)
           = (settle (Rejected (StdError (if truthy_str (q_error q)
                                          then ''OAuth error: '' @ the (q_error q)
                                          else ''State mismatch'')))
                (server_close (respond 400 f)), w)"
  using assms by (simp add: on_request_def)

text \<open>
  C6, as stated, fails: a callback with a forged state that also carries an \<open>error\<close>
  parameter is rejected as a denial, not as a state mismatch.
\<close>

theorem state_mismatch_with_error_counterexample:
  "q_state denied_forged_query \<noteq> Some (flow_state (fst (start_flow env_401 fresh_world)))
   \<and> promise (fst (run_attempt env_401 reaudit_url denied_forged_callback fresh_world))
       = Some (Rejected (StdError ''OAuth error: access_denied''))
   \<and> promise (fst (run_attempt env_401 reaudit_url denied_forged_callback fresh_world))
       \<noteq> Some (Rejected (StdError ''State mismatch''))"
  by (simp add: run_attempt_def denied_forged_callback_def denied_forged_query_def start_flow_def
      randomBytes_def flow_step_def on_request_def flow_fields env_401_def fresh_world_def
      to_hex_def hexdigit_def split: prod.splits)

text \<open>
  C6, amended. At any point of an authentication attempt where the listener still listens,
  a callback whose state differs from the state generated for the attempt closes the
  listener, rejects the attempt and leaves the world as it was, so that no token exchange
  is posted. The rejection is \<open>State mismatch\<close> when the callback carries no \<open>error\<close>
  parameter, and \<open>OAuth error: ...\<close> when it carries one.
\<close>

theorem state_mismatch_aborts:
  assumes "run_flow e base evs (start_flow e w) = (f, w1)"
    and "listening f"
    and "q_state q \<noteq> Some (flow_state f)"
    and "flow_step e base (Request ''/callback'' q) (f, w1) = (f', w')"
  shows "w' = w1 \<and> token_log w' = token_log w1
       \<and> \<not> listening f' \<and> close_calls f' = Suc (close_calls f)
       \<and> in_flight f' = in_flight f
       \<and> (\<not> truthy_str (q_error q) \<longrightarrow>
            promise f' = Some (Rejected (StdError ''State mismatch'')))
       \<and> (truthy_str (q_error q) \<longrightarrow>
            promise f' = Some (Rejected (StdError (''OAuth error: '' @ the (q_error q)))))"
proof -
  obtain f0 w0 where st: "start_flow e w = (f0, w0)"
    by (cases "start_flow e w")
  from run_flow_inv [OF start_flow_inv [OF st]] assms(1) st
  have "flow_inv f" by simp
  with assms(2) have pending: "promise f = None"
    by (simp add: flow_inv_def)
  from assms(2,4) on_request_state_mismatch [OF assms(3), of e base w1]
  have "f' = settle (Rejected (StdError (if truthy_str (q_error q)
                                          then ''OAuth error: '' @ the (q_error q)
                                          else ''State mismatch'')))
                (server_close (respond 400 f))"
    and "w' = w1"
    by (simp_all add: flow_step_def)
  with pending show ?thesis
    by (simp add: flow_fields)
qed

theorem state_mismatch_aborts_witness:
  "run_flow env_401 reaudit_url [Elapse 2000] (start_flow env_401 fresh_world)
     = (fst (start_flow env_401 fresh_world),
        (snd (start_flow env_401 fresh_world)) \<lparr> clock := 1002000 \<rparr>)
   \<and> listening (fst (start_flow env_401 fresh_world))
   \<and> q_state forged_callback \<noteq> Some (flow_state (fst (start_flow env_401 fresh_world)))
   \<and> \<not> truthy_str (q_error forged_callback)
   \<and> promise (fst (flow_step env_401 reaudit_url (Request ''/callback'' forged_callback)
        (fst (start_flow env_401 fresh_world),
         (snd (start_flow env_401 fresh_world)) \<lparr> clock := 1002000 \<rparr>)))
       = Some (Rejected (StdError ''State mismatch''))
   \<and> token_log (snd (flow_step env_401 reaudit_url (Request ''/callback'' forged_callback)
        (fst (start_flow env_401 fresh_world),
         (snd (start_flow env_401 fresh_world)) \<lparr> clock := 1002000 \<rparr>)))
       = []"
proof -
  let ?f = "fst (start_flow env_401 fresh_world)"
  let ?w = "(snd (start_flow env_401 fresh_world)) \<lparr> clock := 1002000 \<rparr>"
  have r: "run_flow env_401 reaudit_url [Elapse 2000] (start_flow env_401 fresh_world) = (?f, ?w)"
    by (simp add: flow_step_def start_flow_def randomBytes_def fresh_world_def)
  have l: "listening ?f"
    by (simp add: start_flow_def randomBytes_def)
  have q: "q_state forged_callback \<noteq> Some (flow_state ?f)"
    by (simp add: forged_callback_def start_flow_def randomBytes_def to_hex_def hexdigit_def
        env_401_def fresh_world_def)
  have n: "\<not> truthy_str (q_error forged_callback)"
    by (simp add: forged_callback_def)
  have t: "token_log ?w = []"
    by (simp add: start_flow_def randomBytes_def fresh_world_def)
  obtain f' w' where s: "flow_step env_401 reaudit_url (Request ''/callback'' forged_callback)
                           (?f, ?w) = (f', w')"
    by (cases "flow_step env_401 reaudit_url (Request ''/callback'' forged_callback) (?f, ?w)")
  from state_mismatch_aborts [OF r l q s] n t s r l q show ?thesis
    by simp
qed

text \<open>
  Nothing cancels the timer: after a callback with the right state and a granted exchange,
  the timer still fires and calls \<open>server.close()\<close> again.
\<close>

lemma close_twice_after_success:
  assumes "start_flow e w = (f, w1)"
    and "snd (token_reply e (length (token_log w1))) = Ok2xx toks"
  shows "close_calls (fst (run_flow e base
           [Request ''/callback'' \<lparr> q_code = c, q_state = Some (flow_state f), q_error = None \<rparr>,
            ExchangeDone, TimerFires] (f, w1))) = 2
       \<and> promise (fst (run_flow e base
           [Request ''/callback'' \<lparr> q_code = c, q_state = Some (flow_state f), q_error = None \<rparr>,
            ExchangeDone, TimerFires] (f, w1))) = Some (Resolved (access_token toks))"
proof -
  from assms(1) have init: "listening f" "in_flight f = []" "timer_armed f" "close_calls f = 0"
      "promise f = None"
    by (auto simp: start_flow_def randomBytes_def)
  with assms(2) show ?thesis
    by (simp add: flow_step_def on_request_def on_exchange_done_def on_timeout_def flow_fields
        Let_def)
qed

text \<open>
  C10, at its failing input: the callback arrives with the right state, the exchange
  succeeds, and the timer, which nothing cancels, fires at five minutes. \<open>server.close()\<close>
  has then been called twice.
\<close>

theorem listener_closed_twice:
  "close_calls (fst (run_attempt env_401 reaudit_url happy_path fresh_world)) = 2
   \<and> promise (fst (run_attempt env_401 reaudit_url happy_path fresh_world))
       = Some (Resolved ''at-2'')"
  by (simp add: run_attempt_def happy_path_def good_callback_def start_flow_def randomBytes_def
      flow_step_def on_request_def on_exchange_done_def on_timeout_def flow_fields Let_def
      env_401_def fresh_world_def new_tokens_def split: prod.splits)

text \<open>
  The listener stays open while an exchange is awaited: a second callback that arrives in
  that time is honoured as well, and posts a second exchange.
\<close>

lemma two_callbacks_both_honoured:
  "length (token_log (snd (run_attempt env_401 reaudit_url double_callback fresh_world))) = 2
   \<and> length (in_flight (fst (run_attempt env_401 reaudit_url double_callback fresh_world))) = 2"
  by (simp add: run_attempt_def double_callback_def good_callback_def start_flow_def
      randomBytes_def flow_step_def on_request_def flow_fields Let_def
      env_401_def fresh_world_def split: prod.splits)
subsection \<open>What an authentication attempt leaves alone\<close>

lemma flow_step_frame:
  assumes "flow_step e base ev (f, w) = (f', w')"
  shows "api_log w' = api_log w \<and> flows_started w' = flows_started w
       \<and> listeners w' = listeners w
       \<and> filter is_refresh (token_log w') = filter is_refresh (token_log w)"
proof (cases ev)
  case (Request pathname q)
  with assms show ?thesis
    by (auto simp: flow_step_def on_request_def is_refresh_def split: if_splits)
next
  case ExchangeDone
  with assms show ?thesis
    by (auto simp: flow_step_def on_exchange_done_def store_saveTokens_fields Let_def
        split: list.splits http_result.splits)
next
  case TimerFires
  with assms show ?thesis
    by (auto simp: flow_step_def on_timeout_def split: if_splits)
next
  case (Elapse d)
  with assms show ?thesis
    by (auto simp: flow_step_def)
qed

lemma run_flow_frame:
  "run_flow e base evs (f, w) = (f', w') \<Longrightarrow>
     api_log w' = api_log w \<and> flows_started w' = flows_started w
     \<and> listeners w' = listeners w
     \<and> filter is_refresh (token_log w') = filter is_refresh (token_log w)"
proof (induction evs arbitrary: f w)
  case Nil
  then show ?case by simp
next
  case (Cons ev evs)
  obtain f1 w1 where s: "flow_step e base ev (f, w) = (f1, w1)"
    by (cases "flow_step e base ev (f, w)")
  from flow_step_frame [OF s] Cons.IH [of f1 w1] Cons.prems s
  show ?case by simp
qed

lemma start_flow_frame:
  assumes "start_flow e w = (f, w1)"
  shows "api_log w1 = api_log w \<and> flows_started w1 = Suc (flows_started w)
       \<and> listeners w1 = listeners w \<and> token_log w1 = token_log w
       \<and> cred_file w1 = cred_file w \<and> clock w1 = clock w"
  using assms by (auto simp: start_flow_def randomBytes_def)

lemma authenticate_frame:
  assumes "authenticate e base w = (r, w')"
  shows "api_log w' = api_log w \<and> flows_started w' = Suc (flows_started w)
       \<and> length (listeners w') = Suc (length (listeners w))
       \<and> filter is_refresh (token_log w') = filter is_refresh (token_log w)"
proof -
  obtain f0 w0 where st: "start_flow e w = (f0, w0)"
    by (cases "start_flow e w")
  obtain f1 w1 where rn: "run_flow e base (browser e (flows_started w) @ [TimerFires]) (f0, w0)
                            = (f1, w1)"
    by (cases "run_flow e base (browser e (flows_started w) @ [TimerFires]) (f0, w0)")
  from assms st rn have w': "w' = w1 \<lparr> listeners := listeners w1 @ [f1] \<rparr>"
    by (auto simp: authenticate_def)
  from run_flow_frame [OF rn] start_flow_frame [OF st] w' show ?thesis
    by simp
qed

text \<open>The timer settles the promise: \<open>authenticate\<close> returns what the promise holds.\<close>

lemma authenticate_settles:
  assumes "run_flow e base (evs @ [TimerFires]) (start_flow e w) = (f, w')"
  shows "promise f \<noteq> None"
proof -
  obtain f0 w0 where st: "start_flow e w = (f0, w0)"
    by (cases "start_flow e w")
  obtain f1 w1 where rn: "run_flow e base evs (f0, w0) = (f1, w1)"
    by (cases "run_flow e base evs (f0, w0)")
  from run_flow_inv [OF start_flow_inv [OF st] rn] have inv: "flow_inv f1" .
  from assms st rn have "on_timeout (f1, w1) = (f, w')"
    by (simp add: run_flow_append flow_step_def)
  with inv show ?thesis
    by (auto simp: on_timeout_def flow_inv_def flow_fields split: if_splits)
qed

subsection \<open>\<open>getAccessToken\<close>\<close>

lemma getAccessToken_fresh:
  assumes "loadTokens (env_crypto e) (env_machine e) base (cred_file w) = Some toks"
    and "\<not> isAccessTokenExpired (env_crypto e) (env_machine e) base (cred_file w) (clock w)"
  shows "getAccessToken e base w = (Inr (accessToken toks), w)"
  using assms by (simp add: getAccessToken_def)

lemma getAccessToken_refreshed:
  assumes "loadTokens (env_crypto e) (env_machine e) base (cred_file w) = Some toks"
    and "isAccessTokenExpired (env_crypto e) (env_machine e) base (cred_file w) (clock w)"
    and "token_reply e (length (token_log w)) = (took, Ok2xx data)"
  shows "getAccessToken e base w
           = (Inr (access_token data),
              store_saveTokens e base (stored_of data (clock w + int took))
                (w \<lparr> token_log := token_log w @ [RefreshGrant (refreshToken toks)],
                     clock := clock w + int took \<rparr>))"
  using assms by (simp add: getAccessToken_def refreshToken_post_def Let_def)

lemma getAccessToken_refresh_failed:
  assumes "loadTokens (env_crypto e) (env_machine e) base (cred_file w) = Some toks"
    and "isAccessTokenExpired (env_crypto e) (env_machine e) base (cred_file w) (clock w)"
    and "token_reply e (length (token_log w)) = (took, Failed msg resp)"
  shows "getAccessToken e base w
           = authenticate e base
               (store_clearTokens
                  (w \<lparr> token_log := token_log w @ [RefreshGrant (refreshToken toks)],
                       clock := clock w + int took \<rparr>))"
  using assms by (simp add: getAccessToken_def refreshToken_post_def Let_def)

lemma getAccessToken_api_log:
  "api_log (snd (getAccessToken e base w)) = api_log w"
proof (cases "loadTokens (env_crypto e) (env_machine e) base (cred_file w)")
  case None
  then have "getAccessToken e base w = authenticate e base w"
    by (simp add: getAccessToken_def)
  then show ?thesis
    using authenticate_frame [of e base w] by (cases "authenticate e base w") simp
next
  case (Some toks)
  show ?thesis
  proof (cases "isAccessTokenExpired (env_crypto e) (env_machine e) base (cred_file w) (clock w)")
    case False
    from getAccessToken_fresh [OF Some False] show ?thesis by simp
  next
    case True
    obtain took answer where tr: "token_reply e (length (token_log w)) = (took, answer)"
      by (cases "token_reply e (length (token_log w))")
    show ?thesis
    proof (cases answer)
      case (Ok2xx data)
      from getAccessToken_refreshed [OF Some True tr [unfolded Ok2xx]] show ?thesis
        by (simp add: store_saveTokens_fields)
    next
      case (Failed msg resp)
      let ?w1 = "store_clearTokens
                  (w \<lparr> token_log := token_log w @ [RefreshGrant (refreshToken toks)],
                       clock := clock w + int took \<rparr>)"
      from getAccessToken_refresh_failed [OF Some True tr [unfolded Failed]]
      have "getAccessToken e base w = authenticate e base ?w1" .
      then show ?thesis
        using authenticate_frame [of e base ?w1]
        by (cases "authenticate e base ?w1") (simp add: store_clearTokens_def)
    qed
  qed
qed

text \<open>
  C5. With a stored record that loads: if it is not expired, \<open>getAccessToken\<close> returns its
  access token and leaves the world as it was (nothing is sent). If it is expired, one
  refresh grant is posted with the stored refresh token; when the endpoint grants it, the
  file is rewritten by \<open>saveTokens\<close> from the four fields of the response, with the expiry
  counted from the time of the answer, and the new access token is returned without an
  authentication attempt; when the post fails, the file is deleted and the result is that
  of \<open>authenticate\<close>, one attempt is started, and no further refresh grant is posted.
\<close>

theorem getAccessToken_algorithm:
  assumes "loadTokens (env_crypto e) (env_machine e) base (cred_file w) = Some toks"
  shows "(\<not> isAccessTokenExpired (env_crypto e) (env_machine e) base (cred_file w) (clock w) \<longrightarrow>
            getAccessToken e base w = (Inr (accessToken toks), w))
       \<and> (isAccessTokenExpired (env_crypto e) (env_machine e) base (cred_file w) (clock w) \<longrightarrow>
            (\<forall>took data. token_reply e (length (token_log w)) = (took, Ok2xx data) \<longrightarrow>
               fst (getAccessToken e base w) = Inr (access_token data)
             \<and> cred_file (snd (getAccessToken e base w))
                 = Some (saveTokens (env_crypto e) (env_machine e) base
                     (map (entropy e) [entropy_used w ..< entropy_used w + 16])
                     (map (entropy e) [entropy_used w + 16 ..< entropy_used w + 32])
                     \<lparr> accessToken = access_token data,
                       refreshToken = refresh_token data,
                       expiresAt = (clock w + int took) div 1000 + expires_in data,
                       scope = scope_granted data \<rparr>)
             \<and> token_log (snd (getAccessToken e base w))
                 = token_log w @ [RefreshGrant (refreshToken toks)]
             \<and> api_log (snd (getAccessToken e base w)) = api_log w
             \<and> flows_started (snd (getAccessToken e base w)) = flows_started w)
          \<and> (\<forall>took msg resp. token_reply e (length (token_log w)) = (took, Failed msg resp) \<longrightarrow>
               getAccessToken e base w
                 = authenticate e base
                     ((w \<lparr> token_log := token_log w @ [RefreshGrant (refreshToken toks)],
                           clock := clock w + int took \<rparr>) \<lparr> cred_file := None \<rparr>)
             \<and> flows_started (snd (getAccessToken e base w)) = Suc (flows_started w)
             \<and> filter is_refresh (token_log (snd (getAccessToken e base w)))
                 = filter is_refresh (token_log w) @ [RefreshGrant (refreshToken toks)]))"
proof (intro conjI impI allI)
  assume "\<not> isAccessTokenExpired (env_crypto e) (env_machine e) base (cred_file w) (clock w)"
  from getAccessToken_fresh [OF assms this]
  show "getAccessToken e base w = (Inr (accessToken toks), w)" .
next
  fix took data
  assume ex: "isAccessTokenExpired (env_crypto e) (env_machine e) base (cred_file w) (clock w)"
    and tr: "token_reply e (length (token_log w)) = (took, Ok2xx data)"
  note g = getAccessToken_refreshed [OF assms ex tr]
  from g show "fst (getAccessToken e base w) = Inr (access_token data)"
    by simp
  from g show "cred_file (snd (getAccessToken e base w))
                 = Some (saveTokens (env_crypto e) (env_machine e) base
                     (map (entropy e) [entropy_used w ..< entropy_used w + 16])
                     (map (entropy e) [entropy_used w + 16 ..< entropy_used w + 32])
                     \<lparr> accessToken = access_token data,
                       refreshToken = refresh_token data,
                       expiresAt = (clock w + int took) div 1000 + expires_in data,
                       scope = scope_granted data \<rparr>)"
    by (simp add: store_saveTokens_fields stored_of_def)
  from g show "token_log (snd (getAccessToken e base w))
                 = token_log w @ [RefreshGrant (refreshToken toks)]"
    by (simp add: store_saveTokens_fields)
  from g show "api_log (snd (getAccessToken e base w)) = api_log w"
    by (simp add: store_saveTokens_fields)
  from g show "flows_started (snd (getAccessToken e base w)) = flows_started w"
    by (simp add: store_saveTokens_fields)
next
  fix took msg resp
  assume ex: "isAccessTokenExpired (env_crypto e) (env_machine e) base (cred_file w) (clock w)"
    and tr: "token_reply e (length (token_log w)) = (took, Failed msg resp)"
  let ?w1 = "(w \<lparr> token_log := token_log w @ [RefreshGrant (refreshToken toks)],
                  clock := clock w + int took \<rparr>) \<lparr> cred_file := None \<rparr>"
  from getAccessToken_refresh_failed [OF assms ex tr]
  show g: "getAccessToken e base w = authenticate e base ?w1"
    by (simp add: store_clearTokens_def)
  obtain r w' where a: "authenticate e base ?w1 = (r, w')"
    by (cases "authenticate e base ?w1")
  from authenticate_frame [OF a] g a
  show "flows_started (snd (getAccessToken e base w)) = Suc (flows_started w)"
    and "filter is_refresh (token_log (snd (getAccessToken e base w)))
           = filter is_refresh (token_log w) @ [RefreshGrant (refreshToken toks)]"
    by (simp_all add: is_refresh_def)
qed
lemma sample_worlds:
  "cred_file signed_in_world = sample_file" "clock signed_in_world = 400000"
  "api_log signed_in_world = []" "token_log signed_in_world = []"
  "flows_started signed_in_world = 0" "entropy_used signed_in_world = 0"
  "cred_file stale_world = sample_file" "clock stale_world = 1200000"
  "api_log stale_world = []" "token_log stale_world = []"
  "flows_started stale_world = 0" "entropy_used stale_world = 0"
  by (simp_all add: signed_in_world_def stale_world_def fresh_world_def)

lemma sample_envs:
  "env_crypto env_401 = toy_crypto" "env_machine env_401 = laptop"
  "token_reply env_401 k = (120, Ok2xx new_tokens)"
  "api_reply env_401 k = (80, Failed ''Request failed with status code 401''
                                (Some (plain_response 401)))"
  "env_crypto env_refresh_fails = toy_crypto" "env_machine env_refresh_fails = laptop"
  "token_reply env_refresh_fails k = (120, Failed ''Request failed with status code 400''
                                             (Some (plain_response 400)))"
  "env_crypto env_503 = toy_crypto" "env_machine env_503 = laptop"
  "api_reply env_503 k = (80, Failed ''Request failed with status code 503''
                                (Some (plain_response 503)))"
  by (simp_all add: env_401_def env_refresh_fails_def env_503_def)

lemma sample_file_expiry:
  "isAccessTokenExpired toy_crypto laptop reaudit_url sample_file now \<longleftrightarrow> 1000000 \<le> now"
  using sample_file_loads by (auto simp: isAccessTokenExpired_def sample_tokens_def)

theorem getAccessToken_algorithm_witness:
  "loadTokens (env_crypto env_401) (env_machine env_401) reaudit_url (cred_file signed_in_world)
     = Some sample_tokens
   \<and> \<not> isAccessTokenExpired (env_crypto env_401) (env_machine env_401) reaudit_url
         (cred_file signed_in_world) (clock signed_in_world)
   \<and> getAccessToken env_401 reaudit_url signed_in_world = (Inr ''at-1'', signed_in_world)
   \<and> isAccessTokenExpired (env_crypto env_401) (env_machine env_401) reaudit_url
         (cred_file stale_world) (clock stale_world)
   \<and> token_reply env_401 (length (token_log stale_world)) = (120, Ok2xx new_tokens)
   \<and> fst (getAccessToken env_401 reaudit_url stale_world) = Inr ''at-2''
   \<and> token_log (snd (getAccessToken env_401 reaudit_url stale_world)) = [RefreshGrant ''rt-1'']
   \<and> token_reply env_refresh_fails (length (token_log stale_world))
       = (120, Failed ''Request failed with status code 400'' (Some (plain_response 400)))
   \<and> flows_started (snd (getAccessToken env_refresh_fails reaudit_url stale_world)) = 1
   \<and> filter is_refresh (token_log (snd (getAccessToken env_refresh_fails reaudit_url stale_world)))
       = [RefreshGrant ''rt-1'']"
proof -
  have l1: "loadTokens (env_crypto env_401) (env_machine env_401) reaudit_url
              (cred_file signed_in_world) = Some sample_tokens"
    and l2: "loadTokens (env_crypto env_401) (env_machine env_401) reaudit_url
              (cred_file stale_world) = Some sample_tokens"
    and l3: "loadTokens (env_crypto env_refresh_fails) (env_machine env_refresh_fails) reaudit_url
              (cred_file stale_world) = Some sample_tokens"
    by (simp_all add: sample_envs sample_worlds sample_file_loads)
  have f1: "\<not> isAccessTokenExpired (env_crypto env_401) (env_machine env_401) reaudit_url
               (cred_file signed_in_world) (clock signed_in_world)"
    and x2: "isAccessTokenExpired (env_crypto env_401) (env_machine env_401) reaudit_url
               (cred_file stale_world) (clock stale_world)"
    and x3: "isAccessTokenExpired (env_crypto env_refresh_fails) (env_machine env_refresh_fails)
               reaudit_url (cred_file stale_world) (clock stale_world)"
    by (simp_all add: sample_envs sample_worlds sample_file_expiry)
  have t2: "token_reply env_401 (length (token_log stale_world)) = (120, Ok2xx new_tokens)"
    and t3: "token_reply env_refresh_fails (length (token_log stale_world))
               = (120, Failed ''Request failed with status code 400'' (Some (plain_response 400)))"
    by (simp_all add: sample_envs)
  from getAccessToken_algorithm [OF l1] f1
  have "getAccessToken env_401 reaudit_url signed_in_world
          = (Inr (accessToken sample_tokens), signed_in_world)"
    by blast
  then have r1: "getAccessToken env_401 reaudit_url signed_in_world
                   = (Inr ''at-1'', signed_in_world)"
    by (simp add: sample_tokens_def)
  from getAccessToken_algorithm [OF l2] x2 t2
  have "fst (getAccessToken env_401 reaudit_url stale_world) = Inr (access_token new_tokens)
      \<and> token_log (snd (getAccessToken env_401 reaudit_url stale_world))
          = token_log stale_world @ [RefreshGrant (refreshToken sample_tokens)]"
    by blast
  then have r2: "fst (getAccessToken env_401 reaudit_url stale_world) = Inr ''at-2''
          \<and> token_log (snd (getAccessToken env_401 reaudit_url stale_world)) = [RefreshGrant ''rt-1'']"
    by (simp add: sample_tokens_def new_tokens_def sample_worlds)
  from getAccessToken_algorithm [OF l3] x3 t3
  have "flows_started (snd (getAccessToken env_refresh_fails reaudit_url stale_world))
          = Suc (flows_started stale_world)
      \<and> filter is_refresh
           (token_log (snd (getAccessToken env_refresh_fails reaudit_url stale_world)))
          = filter is_refresh (token_log stale_world) @ [RefreshGrant (refreshToken sample_tokens)]"
    by blast
  then have r3: "flows_started (snd (getAccessToken env_refresh_fails reaudit_url stale_world)) = 1
          \<and> filter is_refresh
               (token_log (snd (getAccessToken env_refresh_fails reaudit_url stale_world)))
              = [RefreshGrant ''rt-1'']"
    by (simp add: sample_tokens_def sample_worlds)
  from l1 f1 r1 x2 t2 r2 t3 r3 show ?thesis by blast
qed

section \<open>Properties of the API client\<close>

lemma parseError_plain_error:
  "category (parseError dp now (StdError m)) = UNKNOWN"
  "\<not> retryable (parseError dp now (StdError m))"
  by (simp_all add: parseError_def)

lemma parseError_401:
  "status r = 401 \<Longrightarrow> category (parseError dp now (AxiosError m (Some r))) = AUTHENTICATION"
  "status r = 401 \<Longrightarrow> \<not> retryable (parseError dp now (AxiosError m (Some r)))"
  by (simp_all add: parseError_def Let_def isRetryable_def)

lemma default_budget: "int 0 \<le> maxRetries (fullConfig no_overrides)"
  by (simp add: fullConfig_def no_overrides_def DEFAULT_RETRY_CONFIG_def)

lemma request_gives_up_at_once:
  assumes "request_once e base w = (Inl err, w')"
    and "\<not> retryable (parseError (env_Date_parse e) (clock w') err)"
  shows "request e base w = \<lparr> outcome = Inl err, final = w', attempts = [Inl err], waits = [] \<rparr>"
proof -
  have "gives_up (fullConfig no_overrides) 0
          (parseError (Date_parse (facade_runtime e)) (Date_now (facade_runtime e) w') err)"
    using assms(2) by (simp add: gives_up_def facade_runtime_def)
  with default_budget assms(1) show ?thesis
    using withRetry_from_gives_up_at_once
            [of 0 "fullConfig no_overrides" "request_once e base" w err w' "facade_runtime e" None]
    by (simp add: request_def withRetry_def)
qed

lemma request_once_non401:
  assumes "getAccessToken e base w = (Inr tok, w1)"
    and "api_reply e (length (api_log w1)) = (took, Failed msg resp)"
    and "\<forall>r. resp = Some r \<longrightarrow> status r \<noteq> 401"
  shows "request_once e base w
           = (Inl (StdError (formatErrorForUser
                     (parseError (env_Date_parse e) (clock w1 + int took) (AxiosError msg resp)))),
              w1 \<lparr> api_log := api_log w1 @ [tok], clock := clock w1 + int took \<rparr>)"
proof -
  from assms(3) have "\<not> (case resp of Some r \<Rightarrow> status r = 401 | None \<Rightarrow> False)"
    by (cases resp) simp_all
  with assms(1,2) show ?thesis
    by (simp add: request_once_def http_request_def)
qed

text \<open>
  C3. When the token is obtained and the HTTP call fails with anything but a 401 (a 429, a
  5xx, any other status, or no response at all), the closure throws a plain \<open>Error\<close> that
  carries the formatted user message; \<open>withRetry\<close> classifies it as \<open>UNKNOWN\<close>, not
  retryable, and gives up at once: the closure has run once, no wait was made, and exactly
  one request was sent to the API.
\<close>

theorem request_non401_not_retried:
  assumes "getAccessToken e base w = (Inr tok, w1)"
    and "api_reply e (length (api_log w1)) = (took, Failed msg resp)"
    and "\<forall>r. resp = Some r \<longrightarrow> status r \<noteq> 401"
  shows "outcome (request e base w)
           = Inl (StdError (formatErrorForUser
                    (parseError (env_Date_parse e) (clock w1 + int took) (AxiosError msg resp))))
       \<and> attempts (request e base w) = [outcome (request e base w)]
       \<and> waits (request e base w) = []
       \<and> api_log (final (request e base w)) = api_log w @ [tok]
       \<and> category (parseError dp now (StdError (formatErrorForUser
            (parseError (env_Date_parse e) (clock w1 + int took) (AxiosError msg resp))))) = UNKNOWN
       \<and> \<not> retryable (parseError dp now (StdError (formatErrorForUser
            (parseError (env_Date_parse e) (clock w1 + int took) (AxiosError msg resp)))))"
proof -
  note once = request_once_non401 [OF assms]
  from request_gives_up_at_once [OF once parseError_plain_error(2)]
  have r: "request e base w
             = \<lparr> outcome = Inl (StdError (formatErrorForUser
                     (parseError (env_Date_parse e) (clock w1 + int took) (AxiosError msg resp)))),
                 final = w1 \<lparr> api_log := api_log w1 @ [tok], clock := clock w1 + int took \<rparr>,
                 attempts = [Inl (StdError (formatErrorForUser
                     (parseError (env_Date_parse e) (clock w1 + int took) (AxiosError msg resp))))],
                 waits = [] \<rparr>" .
  from getAccessToken_api_log [of e base w] assms(1) have "api_log w1 = api_log w"
    by simp
  with r show ?thesis
    by (simp add: parseError_plain_error)
qed

lemma signed_in_token:
  "clock w < 1000000 \<Longrightarrow> cred_file w = sample_file \<Longrightarrow> env_crypto e = toy_crypto \<Longrightarrow>
   env_machine e = laptop \<Longrightarrow> getAccessToken e reaudit_url w = (Inr ''at-1'', w)"
  using getAccessToken_fresh [of e reaudit_url w sample_tokens]
  by (simp add: sample_file_loads sample_file_expiry sample_tokens_def)

theorem request_non401_not_retried_witness:
  "getAccessToken env_503 reaudit_url signed_in_world = (Inr ''at-1'', signed_in_world)
   \<and> api_reply env_503 (length (api_log signed_in_world))
       = (80, Failed ''Request failed with status code 503'' (Some (plain_response 503)))
   \<and> status (plain_response 503) \<noteq> 401
   \<and> attempts (request env_503 reaudit_url signed_in_world)
       = [outcome (request env_503 reaudit_url signed_in_world)]
   \<and> waits (request env_503 reaudit_url signed_in_world) = []
   \<and> api_log (final (request env_503 reaudit_url signed_in_world)) = [''at-1'']"
proof -
  have g: "getAccessToken env_503 reaudit_url signed_in_world = (Inr ''at-1'', signed_in_world)"
    by (rule signed_in_token) (simp_all add: sample_worlds sample_envs)
  have a: "api_reply env_503 (length (api_log signed_in_world))
             = (80, Failed ''Request failed with status code 503'' (Some (plain_response 503)))"
    by (simp add: sample_envs)
  have n: "\<forall>r. Some (plain_response 503) = Some r \<longrightarrow> status r \<noteq> 401"
    by (simp add: plain_response_def)
  have s: "status (plain_response 503) \<noteq> 401"
    by (simp add: plain_response_def)
  from request_non401_not_retried [OF g a n] g a s show ?thesis
    by (simp add: sample_worlds)
qed

subsection \<open>The replay after a 401\<close>

lemma request_once_401_then_failure:
  assumes "getAccessToken e base w = (Inr tok, w1)"
    and "api_reply e (length (api_log w1)) = (took, Failed msg (Some r))"
    and "status r = 401"
    and "getAccessToken e base (w1 \<lparr> api_log := api_log w1 @ [tok], clock := clock w1 + int took \<rparr>)
           = (Inr tok2, w3)"
    and "api_reply e (length (api_log w3)) = (took2, Failed msg2 resp2)"
  shows "request_once e base w
           = (Inl (AxiosError msg2 resp2),
              w3 \<lparr> api_log := api_log w3 @ [tok2], clock := clock w3 + int took2 \<rparr>)"
  using assms by (simp add: request_once_def http_request_def)

text \<open>
  The part of C2 that holds: when the replay fails with a 401 too, that Axios error leaves
  the closure as it is, \<open>withRetry\<close> classifies it as \<open>AUTHENTICATION\<close> and gives up; two
  requests were sent in all.
\<close>

lemma request_401_replay_401:
  assumes "getAccessToken e base w = (Inr tok, w1)"
    and "api_reply e (length (api_log w1)) = (took, Failed msg (Some r))"
    and "status r = 401"
    and "getAccessToken e base (w1 \<lparr> api_log := api_log w1 @ [tok], clock := clock w1 + int took \<rparr>)
           = (Inr tok2, w3)"
    and "api_reply e (length (api_log w3)) = (took2, Failed msg2 (Some r2))"
    and "status r2 = 401"
  shows "outcome (request e base w) = Inl (AxiosError msg2 (Some r2))
       \<and> attempts (request e base w) = [Inl (AxiosError msg2 (Some r2))]
       \<and> api_log (final (request e base w)) = api_log w @ [tok, tok2]
       \<and> token_log (final (request e base w)) = token_log w3"
proof -
  note once = request_once_401_then_failure [OF assms(1-5)]
  from request_gives_up_at_once [OF once parseError_401(2) [OF assms(6)]]
  have r: "request e base w
             = \<lparr> outcome = Inl (AxiosError msg2 (Some r2)),
                 final = w3 \<lparr> api_log := api_log w3 @ [tok2], clock := clock w3 + int took2 \<rparr>,
                 attempts = [Inl (AxiosError msg2 (Some r2))], waits = [] \<rparr>" .
  from getAccessToken_api_log [of e base w] assms(1) have a1: "api_log w1 = api_log w"
    by simp
  from getAccessToken_api_log
         [of e base "w1 \<lparr> api_log := api_log w1 @ [tok], clock := clock w1 + int took \<rparr>"] assms(4)
  have a3: "api_log w3 = api_log w1 @ [tok]"
    by simp
  from r a1 a3 show ?thesis by simp
qed

text \<open>
  C2, at its failing input: the stored token is not expired by the local clock and the API
  answers 401. \<open>getAccessToken\<close> then returns the stored token again: nothing is posted to
  the token endpoint, and the replay carries the token that was just refused.
\<close>

theorem request_401_replays_without_refresh:
  "token_log (final (request env_401 reaudit_url signed_in_world)) = []
   \<and> api_log (final (request env_401 reaudit_url signed_in_world)) = [''at-1'', ''at-1'']
   \<and> outcome (request env_401 reaudit_url signed_in_world)
       = Inl (AxiosError ''Request failed with status code 401'' (Some (plain_response 401)))
   \<and> length (attempts (request env_401 reaudit_url signed_in_world)) = 1"
proof -
  let ?w2 = "signed_in_world \<lparr> api_log := api_log signed_in_world @ [''at-1''],
                               clock := clock signed_in_world + int 80 \<rparr>"
  have g1: "getAccessToken env_401 reaudit_url signed_in_world = (Inr ''at-1'', signed_in_world)"
    by (rule signed_in_token) (simp_all add: sample_worlds sample_envs)
  have g2: "getAccessToken env_401 reaudit_url ?w2 = (Inr ''at-1'', ?w2)"
    by (rule signed_in_token) (simp_all add: sample_worlds sample_envs)
  have s: "status (plain_response 401) = 401"
    by (simp add: plain_response_def)
  from request_401_replay_401 [OF g1 sample_envs(4) s g2 sample_envs(4) s]
  show ?thesis by (simp add: sample_worlds)
qed

end
